theory Spec2Isabelle
  imports Complex_Main "HOL-Library.AList"
begin

section \<open>The host: what the browser and the GPU driver answer\<close>

text \<open>
  The engine talks to two collaborators that are not part of the repository: the canvas element
  (layout size, \<^verbatim>\<open>getContext\<close>) and the WebGL context.  Everything they answer is a field
  of the record \<open>host\<close>, so that every behaviour of the code is the behaviour of the model under
  some host.  Object names handed out by the context (\<^verbatim>\<open>createTexture\<close>,
  \<^verbatim>\<open>createProgram\<close>, ...) are natural numbers taken from a counter; a context that is lost while
  the page runs, and therefore hands out \<^verbatim>\<open>null\<close>, is not modelled.

  JavaScript numbers are modelled by \<open>int\<close> where the code keeps integers in them (sizes, the
  frame counter) and by \<open>real\<close> for the clock; rounding of doubles is not modelled.
\<close>

type_synonym handle = nat

datatype shader_type = VERTEX_SHADER_T | FRAGMENT_SHADER_T

datatype context_type = WebGL2RenderingContext | WebGLRenderingContext

record host =
  getContext_webgl2 :: bool
  getContext_webgl :: bool
  supported_extension :: "string \<Rightarrow> bool"
  compile_status :: "shader_type \<Rightarrow> string \<Rightarrow> bool"
  shader_info_log :: "shader_type \<Rightarrow> string \<Rightarrow> string option"
  link_status :: "handle \<Rightarrow> bool"
  uniform_active :: "handle \<Rightarrow> string \<Rightarrow> bool"
  attrib_location :: "handle \<Rightarrow> string \<Rightarrow> int"

text \<open>
  \<open>link_status\<close> is what \<^verbatim>\<open>gl.getProgramParameter(program, gl.LINK_STATUS)\<close> would answer.
  No function of the source asks for it, so no definition below reads the field.
\<close>

section \<open>Errors\<close>

text \<open>
  The two error classes of the entry file: \<^verbatim>\<open>shaderWebBackground.ConfigError\<close> and
  \<^verbatim>\<open>shaderWebBackground.GlError\<close>.  A \<^verbatim>\<open>throw\<close> is the value \<open>Inl\<close>.
\<close>

datatype error = ConfigError string | GlError string

definition check :: "bool \<Rightarrow> string \<Rightarrow> error + unit" where
  "check condition message = (if \<not> condition then Inl (ConfigError message) else Inr ())"

section \<open>The WebGL context: commands, trace and texture store\<close>

datatype glenum =
    ARRAY_BUFFER | STATIC_DRAW | TEXTURE_2D | RGBA | RGBA16F | FLOAT | HALF_FLOAT_OES
  | TEXTURE_MIN_FILTER | TEXTURE_MAG_FILTER | TEXTURE_WRAP_S | TEXTURE_WRAP_T
  | LINEAR | CLAMP_TO_EDGE | FRAMEBUFFER | COLOR_ATTACHMENT0 | TEXTURE0 | TRIANGLE_STRIP

text \<open>
  A \<^verbatim>\<open>WebGLUniformLocation\<close> names one uniform variable of one program.
\<close>

datatype location = Loc handle string

datatype glcall =
    CreateBuffer handle
  | BindBuffer glenum "handle option"
  | BufferData glenum "real list" glenum
  | CreateShader shader_type handle
  | ShaderSource handle string
  | CompileShader handle
  | DeleteShader handle
  | CreateProgram handle
  | AttachShader handle handle
  | LinkProgram handle
  | CreateFramebuffer handle
  | CreateTexture handle
  | DeleteTexture "handle option"
  | BindTexture glenum "handle option"
  | TexImage2D glenum int glenum int int int glenum glenum
  | TexParameteri glenum glenum glenum
  | Viewport int int int int
  | UseProgram handle
  | Uniform2f location real real
  | Uniform1f location real
  | Uniform1i location int
  | BindFramebuffer glenum "handle option"
  | FramebufferTexture2D glenum glenum glenum "handle option" int
  | ActiveTexture glenum
  | EnableVertexAttribArray int
  | VertexAttribPointer int int glenum bool int int
  | DrawArrays glenum int int

text \<open>
  The trace lists, in program order, every command sent to the context (\<open>Gl\<close>), every call of a
  caller-supplied uniform setter (\<open>UserSetterCall\<close>, with the tag of the setter and the location
  it was given), every \<^verbatim>\<open>console.log\<close>, and the steps of the animation driver: an assignment
  to the frame counter (\<open>SetFrame\<close>) and the entry into \<^verbatim>\<open>init\<close>, \<^verbatim>\<open>draw\<close> and
  \<^verbatim>\<open>afterFrame\<close> of the pass with the given id (\<open>DrawDone\<close> is the return from
  \<^verbatim>\<open>draw\<close>).  Queries that only read the context (\<^verbatim>\<open>getExtension\<close>,
  \<^verbatim>\<open>getShaderParameter\<close>, \<^verbatim>\<open>getShaderInfoLog\<close>, \<^verbatim>\<open>getUniformLocation\<close>,
  \<^verbatim>\<open>getAttribLocation\<close>) are answered by the host and leave no entry.
\<close>

datatype event =
    Gl glcall
  | UserSetterCall nat location
  | ConsoleLog string
  | SetFrame int
  | Init string int int
  | Draw string
  | DrawDone string
  | AfterFrame string

record world =
  trace :: "event list"
  fresh :: handle
  bound_texture :: "handle option"
  tex_image :: "handle \<Rightarrow> (glenum \<times> int \<times> int) option"

definition emit :: "event \<Rightarrow> world \<Rightarrow> world" where
  "emit e w = w\<lparr>trace := trace w @ [e]\<rparr>"

text \<open>
  The part of the context's state that the claims talk about: which texture is bound, and the
  storage each texture was given.  \<^verbatim>\<open>texImage2D\<close> gives storage to the bound texture.
\<close>

fun gl_effect :: "glcall \<Rightarrow> world \<Rightarrow> world" where
  "gl_effect (BindTexture target t) w = w\<lparr>bound_texture := t\<rparr>"
| "gl_effect (TexImage2D target level internalformat wd ht border format ty) w =
     (case bound_texture w of
        None \<Rightarrow> w
      | Some t \<Rightarrow> w\<lparr>tex_image := (tex_image w)(t \<mapsto> (internalformat, wd, ht))\<rparr>)"
| "gl_effect (DeleteTexture t) w =
     (case t of
        None \<Rightarrow> w
      | Some h \<Rightarrow> w\<lparr>bound_texture := (if bound_texture w = Some h then None else bound_texture w),
                    tex_image := (tex_image w)(h := None)\<rparr>)"
| "gl_effect c w = w"

definition gl :: "glcall \<Rightarrow> world \<Rightarrow> world" where
  "gl c w = gl_effect c (emit (Gl c) w)"

definition gl_create :: "(handle \<Rightarrow> glcall) \<Rightarrow> world \<Rightarrow> handle \<times> world" where
  "gl_create mk w = (fresh w, gl (mk (fresh w)) (w\<lparr>fresh := Suc (fresh w)\<rparr>))"

section \<open>webgl-utils.js\<close>

definition QUAD_POSITIONS :: "real list" where
  "QUAD_POSITIONS = [-1, 1, 1, 1, -1, -1, 1, -1]"

subsection \<open>WebGlStrategy, WebGl1Strategy, WebGl2Strategy\<close>

datatype strategy = WebGl1Strategy | WebGl2Strategy

text \<open>
  The \<^verbatim>\<open>check\<close> closure of the \<^verbatim>\<open>GlWrapper\<close> constructor: a falsy condition throws what
  the error factory builds, a truthy one is returned.
\<close>

definition GlWrapper_check :: "(string \<Rightarrow> error) \<Rightarrow> 'a option \<Rightarrow> string \<Rightarrow> error + 'a" where
  "GlWrapper_check glErrorFactory condition message =
     (case condition of None \<Rightarrow> Inl (glErrorFactory message) | Some c \<Rightarrow> Inr c)"

definition gl_getExtension :: "host \<Rightarrow> string \<Rightarrow> unit option" where
  "gl_getExtension h extension = (if supported_extension h extension then Some () else None)"

definition getExtension :: "host \<Rightarrow> (string \<Rightarrow> error) \<Rightarrow> string \<Rightarrow> error + unit" where
  "getExtension h glErrorFactory extension =
     GlWrapper_check glErrorFactory (gl_getExtension h extension)
       (extension @ '' extension is not supported'')"

definition WebGl1Strategy_new :: "host \<Rightarrow> (string \<Rightarrow> error) \<Rightarrow> error + strategy" where
  "WebGl1Strategy_new h glErrorFactory =
     (case getExtension h glErrorFactory ''OES_texture_half_float'' of
        Inl e \<Rightarrow> Inl e
      | Inr ext \<Rightarrow>
          (case getExtension h glErrorFactory ''OES_texture_half_float_linear'' of
             Inl e \<Rightarrow> Inl e
           | Inr u \<Rightarrow> Inr WebGl1Strategy))"

definition WebGl2Strategy_new :: "host \<Rightarrow> (string \<Rightarrow> error) \<Rightarrow> error + strategy" where
  "WebGl2Strategy_new h glErrorFactory =
     (case getExtension h glErrorFactory ''EXT_color_buffer_float'' of
        Inl e \<Rightarrow> Inl e
      | Inr u \<Rightarrow> Inr WebGl2Strategy)"

fun setUpTexture :: "strategy \<Rightarrow> int \<Rightarrow> int \<Rightarrow> world \<Rightarrow> world" where
  "setUpTexture WebGl1Strategy wd ht w =
     gl (TexImage2D TEXTURE_2D 0 RGBA wd ht 0 RGBA HALF_FLOAT_OES) w"
| "setUpTexture WebGl2Strategy wd ht w =
     gl (TexImage2D TEXTURE_2D 0 RGBA16F wd ht 0 RGBA FLOAT) w"

subsection \<open>GlWrapper\<close>

record canvas =
  width :: int
  height :: int
  clientWidth :: int
  clientHeight :: int

text \<open>
  \<^verbatim>\<open>this.can\<close> is the canvas of the driver and \<^verbatim>\<open>this.gl\<close> the one context, so the wrapper
  keeps only what is its own: the strategy, the error factory and the quad buffer.
\<close>

record GlWrapper =
  glErrorFactory :: "string \<Rightarrow> error"
  strategy :: strategy
  quad :: handle

definition canvas_toString :: string where
  "canvas_toString = ''[object HTMLCanvasElement]''"

definition canvas_getContext :: "host \<Rightarrow> context_type option" where
  "canvas_getContext h =
     (case (if getContext_webgl2 h then Some WebGL2RenderingContext else None) of
        Some c \<Rightarrow> Some c
      | None \<Rightarrow> (if getContext_webgl h then Some WebGLRenderingContext else None))"

definition GlWrapper_new :: "host \<Rightarrow> (string \<Rightarrow> error) \<Rightarrow> world \<Rightarrow> (error + GlWrapper) \<times> world" where
  "GlWrapper_new h factory w =
     (case GlWrapper_check factory (canvas_getContext h)
             (''webgl context not supported on supplied canvas element: '' @ canvas_toString) of
        Inl e \<Rightarrow> (Inl e, w)
      | Inr ctx \<Rightarrow>
          (case (case ctx of
                   WebGL2RenderingContext \<Rightarrow> WebGl2Strategy_new h factory
                 | WebGLRenderingContext \<Rightarrow> WebGl1Strategy_new h factory) of
             Inl e \<Rightarrow> (Inl e, w)
           | Inr s \<Rightarrow>
               (case gl_create CreateBuffer w of
                  (positionBuffer, w1) \<Rightarrow>
                    (Inr \<lparr>glErrorFactory = factory, strategy = s, quad = positionBuffer\<rparr>,
                     fold gl [BindBuffer ARRAY_BUFFER (Some positionBuffer),
                              BufferData ARRAY_BUFFER QUAD_POSITIONS STATIC_DRAW,
                              BindBuffer ARRAY_BUFFER None] w1))))"

definition String_js :: "string option \<Rightarrow> string" where
  "String_js v = (case v of None \<Rightarrow> ''null'' | Some s \<Rightarrow> s)"

definition loadShader ::
  "host \<Rightarrow> GlWrapper \<Rightarrow> string \<Rightarrow> shader_type \<Rightarrow> string \<Rightarrow> world \<Rightarrow> (error + handle) \<times> world" where
  "loadShader h g ident ty source w =
     (case gl_create (CreateShader ty) w of
        (shader, w1) \<Rightarrow>
          (let w2 = fold gl [ShaderSource shader source, CompileShader shader] w1 in
           if \<not> compile_status h ty source then
             (let info = String_js (shader_info_log h ty source);
                  w3 = gl (DeleteShader shader) w2;
                  message = ''Cannot compile shader - '' @ ident @ '': '' @ info
              in (Inl (glErrorFactory g message),
                  emit (ConsoleLog (message @ [CHR 0x0A] @ source)) w3))
           else (Inr shader, w2)))"

definition initProgram ::
  "host \<Rightarrow> GlWrapper \<Rightarrow> string \<Rightarrow> string \<Rightarrow> string \<Rightarrow> world \<Rightarrow> (error + handle) \<times> world" where
  "initProgram h g ident vertexShaderSource fragmentShaderSource w =
     (case loadShader h g ident VERTEX_SHADER_T vertexShaderSource w of
        (Inl e, w1) \<Rightarrow> (Inl e, w1)
      | (Inr vertexShader, w1) \<Rightarrow>
          (case loadShader h g ident FRAGMENT_SHADER_T fragmentShaderSource w1 of
             (Inl e, w2) \<Rightarrow> (Inl e, w2)
           | (Inr fragmentShader, w2) \<Rightarrow>
               (case gl_create CreateProgram w2 of
                  (program, w3) \<Rightarrow>
                    (Inr program,
                     fold gl [AttachShader program vertexShader,
                              AttachShader program fragmentShader,
                              LinkProgram program] w3))))"

subsection \<open>DoubleBuffer\<close>

text \<open>
  \<^verbatim>\<open>inTexture\<close> and \<^verbatim>\<open>outTexture\<close> are \<^verbatim>\<open>null\<close> (\<open>None\<close>) until the first
  \<^verbatim>\<open>init\<close>.
\<close>

record DoubleBuffer =
  fbo :: handle
  buffer_strategy :: strategy
  inTexture :: "handle option"
  outTexture :: "handle option"

definition DoubleBuffer_new :: "strategy \<Rightarrow> world \<Rightarrow> DoubleBuffer \<times> world" where
  "DoubleBuffer_new s w =
     (case gl_create CreateFramebuffer w of
        (f, w1) \<Rightarrow> (\<lparr>fbo = f, buffer_strategy = s, inTexture = None, outTexture = None\<rparr>, w1))"

definition deleteTextures :: "DoubleBuffer \<Rightarrow> world \<Rightarrow> world" where
  "deleteTextures b w = gl (DeleteTexture (outTexture b)) (gl (DeleteTexture (inTexture b)) w)"

definition createTexture :: "DoubleBuffer \<Rightarrow> int \<Rightarrow> int \<Rightarrow> world \<Rightarrow> handle \<times> world" where
  "createTexture b wd ht w =
     (case gl_create CreateTexture w of
        (texture, w1) \<Rightarrow>
          (let w2 = gl (BindTexture TEXTURE_2D (Some texture)) w1;
               w3 = setUpTexture (buffer_strategy b) wd ht w2
           in (texture,
               fold gl [TexParameteri TEXTURE_2D TEXTURE_MIN_FILTER LINEAR,
                        TexParameteri TEXTURE_2D TEXTURE_MAG_FILTER LINEAR,
                        TexParameteri TEXTURE_2D TEXTURE_WRAP_S CLAMP_TO_EDGE,
                        TexParameteri TEXTURE_2D TEXTURE_WRAP_T CLAMP_TO_EDGE,
                        BindTexture TEXTURE_2D None] w3)))"

definition DoubleBuffer_init :: "DoubleBuffer \<Rightarrow> int \<Rightarrow> int \<Rightarrow> world \<Rightarrow> DoubleBuffer \<times> world" where
  "DoubleBuffer_init b wd ht w =
     (case createTexture b wd ht (deleteTextures b w) of
        (t_in, w1) \<Rightarrow>
          (case createTexture (b\<lparr>inTexture := Some t_in\<rparr>) wd ht w1 of
             (t_out, w2) \<Rightarrow> (b\<lparr>inTexture := Some t_in, outTexture := Some t_out\<rparr>, w2)))"

definition DoubleBuffer_draw :: "DoubleBuffer \<Rightarrow> (world \<Rightarrow> world) \<Rightarrow> world \<Rightarrow> world" where
  "DoubleBuffer_draw b call w =
     (let w1 = fold gl [BindFramebuffer FRAMEBUFFER (Some (fbo b)),
                        FramebufferTexture2D FRAMEBUFFER COLOR_ATTACHMENT0 TEXTURE_2D (outTexture b) 0,
                        ActiveTexture TEXTURE0,
                        BindTexture TEXTURE_2D (inTexture b)] w;
          w2 = call w1
      in fold gl [FramebufferTexture2D FRAMEBUFFER COLOR_ATTACHMENT0 TEXTURE_2D None 0,
                  BindTexture TEXTURE_2D None,
                  BindFramebuffer FRAMEBUFFER None] w2)"

definition swapTextures :: "DoubleBuffer \<Rightarrow> DoubleBuffer" where
  "swapTextures b =
     (let tmp = outTexture b;
          b1 = b\<lparr>outTexture := inTexture b\<rparr>
      in b1\<lparr>inTexture := tmp\<rparr>)"

subsection \<open>ProgramWrapper and BufferedProgramWrapper\<close>

text \<open>
  A uniform setter is one of the four closures of \<^verbatim>\<open>defaultUniforms\<close> or a function supplied
  by the caller.  The caller's functions are opaque: each carries a tag, and calling one leaves
  \<open>UserSetterCall\<close> in the trace and changes nothing else (a caller's setter that throws, or
  that reaches into the canvas, is outside the model).

  A table of setters is a JavaScript object; it is modelled by the list of its properties in
  enumeration order, which for names that are not array indices is the order of first
  assignment (\<open>AList.update\<close> replaces in place or appends).
\<close>

datatype setter = Setter_R | Setter_T | Setter_F | Setter_D | UserSetter nat

type_synonym Uniforms = "(string \<times> setter) list"

text \<open>
  The two classes are one record: \<open>buffer = None\<close> is a plain \<^verbatim>\<open>ProgramWrapper\<close>,
  \<open>buffer = Some b\<close> a \<^verbatim>\<open>BufferedProgramWrapper\<close> owning \<open>b\<close>.  (\<^verbatim>\<open>context.buffers[id]\<close>
  is a second reference to the same buffer; only the caller's setters read it.)
\<close>

record ProgramWrapper =
  id_w :: string
  program :: handle
  uniforms :: "(string \<times> location \<times> setter) list"
  vertex :: int
  buffer :: "DoubleBuffer option"

definition gl_getUniformLocation :: "host \<Rightarrow> handle \<Rightarrow> string \<Rightarrow> location option" where
  "gl_getUniformLocation h prog name = (if uniform_active h prog name then Some (Loc prog name) else None)"

text \<open>
  The loop of the constructor over the names of the table it is given: a name the program has no
  location for is skipped.
\<close>

fun resolve_uniforms :: "host \<Rightarrow> handle \<Rightarrow> Uniforms \<Rightarrow> (string \<times> location \<times> setter) list" where
  "resolve_uniforms h prog [] = []"
| "resolve_uniforms h prog ((name, s) # table) =
     (case gl_getUniformLocation h prog name of
        None \<Rightarrow> resolve_uniforms h prog table
      | Some l \<Rightarrow> (name, l, s) # resolve_uniforms h prog table)"

definition ProgramWrapper_new ::
  "host \<Rightarrow> string \<Rightarrow> handle \<Rightarrow> Uniforms \<Rightarrow> string \<Rightarrow> ProgramWrapper" where
  "ProgramWrapper_new h ident prog table vertexAttribute =
     \<lparr>id_w = ident, program = prog, uniforms = resolve_uniforms h prog table,
      vertex = attrib_location h prog vertexAttribute, buffer = None\<rparr>"

definition BufferedProgramWrapper_new ::
  "host \<Rightarrow> string \<Rightarrow> handle \<Rightarrow> Uniforms \<Rightarrow> string \<Rightarrow> DoubleBuffer \<Rightarrow> ProgramWrapper" where
  "BufferedProgramWrapper_new h ident prog table vertexAttribute b =
     (ProgramWrapper_new h ident prog table vertexAttribute)\<lparr>buffer := Some b\<rparr>"

definition wrapProgram ::
  "host \<Rightarrow> GlWrapper \<Rightarrow> string \<Rightarrow> handle \<Rightarrow> string \<Rightarrow> Uniforms \<Rightarrow> bool \<Rightarrow> world
     \<Rightarrow> ProgramWrapper \<times> world" where
  "wrapProgram h g ident prog vertexAttribute table buffered w =
     (if buffered then
        (case DoubleBuffer_new (strategy g) w of
           (b, w1) \<Rightarrow> (BufferedProgramWrapper_new h ident prog table vertexAttribute b, w1))
      else (ProgramWrapper_new h ident prog table vertexAttribute, w))"

definition updateViewportSize :: "canvas \<Rightarrow> world \<Rightarrow> world" where
  "updateViewportSize can w = gl (Viewport 0 0 (width can) (height can)) w"

definition drawQuad :: "GlWrapper \<Rightarrow> int \<Rightarrow> world \<Rightarrow> world" where
  "drawQuad g vertexAttrLocation w =
     fold gl [BindBuffer ARRAY_BUFFER (Some (quad g)),
              EnableVertexAttribArray vertexAttrLocation,
              VertexAttribPointer vertexAttrLocation 2 FLOAT False 0 0,
              DrawArrays TRIANGLE_STRIP 0 4,
              BindBuffer ARRAY_BUFFER None] w"

section \<open>The entry file: doShade and the animation driver\<close>

definition VERTEX_ATTRIBUTE :: string where
  "VERTEX_ATTRIBUTE = ''V''"

definition VERTEX_SHADER :: string where
  "VERTEX_SHADER = ''attribute vec2 V;void main(){gl_Position=vec4(V,0,1);}''"

definition isResized :: "canvas \<Rightarrow> bool" where
  "isResized can = (width can \<noteq> clientWidth can \<or> height can \<noteq> clientHeight can)"

definition updateSize :: "canvas \<Rightarrow> canvas" where
  "updateSize can = can\<lparr>width := clientWidth can, height := clientHeight can\<rparr>"

text \<open>
  The variables that the closures of \<^verbatim>\<open>doShade\<close> share: the canvas, the wrapper of the
  context, the three counters and the list of passes.
\<close>

record driver =
  canvas :: canvas
  glWrapper :: GlWrapper
  frame :: int
  time :: real
  minDimension :: int
  programs :: "ProgramWrapper list"

text \<open>
  Calling a setter: the four closures of \<^verbatim>\<open>defaultUniforms\<close> read the driver's variables at
  the time of the call.
\<close>

fun call_setter :: "driver \<Rightarrow> setter \<Rightarrow> location \<Rightarrow> world \<Rightarrow> world" where
  "call_setter d Setter_R loc w =
     gl (Uniform2f loc (of_int (width (canvas d))) (of_int (height (canvas d)))) w"
| "call_setter d Setter_T loc w = gl (Uniform1f loc (time d)) w"
| "call_setter d Setter_F loc w = gl (Uniform1i loc (frame d)) w"
| "call_setter d Setter_D loc w = gl (Uniform1f loc (of_int (minDimension d))) w"
| "call_setter d (UserSetter tag) loc w = emit (UserSetterCall tag loc) w"

definition defaultUniforms :: Uniforms where
  "defaultUniforms = [(''R'', Setter_R), (''T'', Setter_T), (''F'', Setter_F), (''D'', Setter_D)]"

subsection \<open>The three methods of a pass\<close>

definition ProgramWrapper_init :: "ProgramWrapper \<Rightarrow> int \<Rightarrow> int \<Rightarrow> world \<Rightarrow> ProgramWrapper \<times> world" where
  "ProgramWrapper_init p wd ht w = (p, w)"

definition BufferedProgramWrapper_init ::
  "DoubleBuffer \<Rightarrow> ProgramWrapper \<Rightarrow> int \<Rightarrow> int \<Rightarrow> world \<Rightarrow> ProgramWrapper \<times> world" where
  "BufferedProgramWrapper_init b p wd ht w =
     (case ProgramWrapper_init p wd ht w of
        (p1, w1) \<Rightarrow>
          (case DoubleBuffer_init b wd ht w1 of
             (b1, w2) \<Rightarrow> (p1\<lparr>buffer := Some b1\<rparr>, w2)))"

definition init :: "ProgramWrapper \<Rightarrow> int \<Rightarrow> int \<Rightarrow> world \<Rightarrow> ProgramWrapper \<times> world" where
  "init p wd ht w =
     (let w0 = emit (Init (id_w p) wd ht) w in
      case buffer p of
        None \<Rightarrow> ProgramWrapper_init p wd ht w0
      | Some b \<Rightarrow> BufferedProgramWrapper_init b p wd ht w0)"

definition ProgramWrapper_draw :: "driver \<Rightarrow> ProgramWrapper \<Rightarrow> (world \<Rightarrow> world) \<Rightarrow> world \<Rightarrow> world" where
  "ProgramWrapper_draw d p drawer w =
     drawer (fold (\<lambda>(name, loc, s). call_setter d s loc) (uniforms p) (gl (UseProgram (program p)) w))"

definition BufferedProgramWrapper_draw ::
  "driver \<Rightarrow> DoubleBuffer \<Rightarrow> ProgramWrapper \<Rightarrow> (world \<Rightarrow> world) \<Rightarrow> world \<Rightarrow> world" where
  "BufferedProgramWrapper_draw d b p drawer w = ProgramWrapper_draw d p (DoubleBuffer_draw b drawer) w"

definition draw :: "driver \<Rightarrow> ProgramWrapper \<Rightarrow> (world \<Rightarrow> world) \<Rightarrow> world \<Rightarrow> world" where
  "draw d p drawer w =
     (let w0 = emit (Draw (id_w p)) w;
          w1 = (case buffer p of
                  None \<Rightarrow> ProgramWrapper_draw d p drawer w0
                | Some b \<Rightarrow> BufferedProgramWrapper_draw d b p drawer w0)
      in emit (DrawDone (id_w p)) w1)"

definition afterFrame :: "ProgramWrapper \<Rightarrow> world \<Rightarrow> ProgramWrapper \<times> world" where
  "afterFrame p w =
     (let w0 = emit (AfterFrame (id_w p)) w in
      case buffer p of
        None \<Rightarrow> (p, w0)
      | Some b \<Rightarrow> (p\<lparr>buffer := Some (swapTextures b)\<rparr>, w0))"

text \<open>
  \<^verbatim>\<open>programs.forEach\<close> with a callback that changes the pass it is given.
\<close>

fun forEach :: "('a \<Rightarrow> world \<Rightarrow> 'a \<times> world) \<Rightarrow> 'a list \<Rightarrow> world \<Rightarrow> 'a list \<times> world" where
  "forEach f [] w = ([], w)"
| "forEach f (p # ps) w =
     (case f p w of
        (p1, w1) \<Rightarrow> (case forEach f ps w1 of (ps1, w2) \<Rightarrow> (p1 # ps1, w2)))"

subsection \<open>Setting up the passes\<close>

text \<open>
  \<^verbatim>\<open>sources\<close> is the object of shader texts, given by its properties in the order in which
  they were first assigned (\<^verbatim>\<open>shade\<close> assigns them in the order of the scripts, so this is
  the order in which the shaders are supplied; the ids of an object are pairwise different);
  \<^verbatim>\<open>shaders\<close> maps a pass id to its configuration record, whose \<^verbatim>\<open>uniforms\<close> table (if
  any) holds the caller's setters by tag.

  \<^verbatim>\<open>Object.keys\<close> does not list the properties in that order: it lists first the keys that
  are array indices (the decimal numeral, without a leading zero, of a number below
  4294967295) in ascending numeric order, and then the other keys in the order of their
  first assignment.
\<close>

definition is_digit :: "char \<Rightarrow> bool" where
  "is_digit c = (c \<in> set ''0123456789'')"

text \<open>
  The value of a decimal digit is its position in the string of the ten digits.
\<close>

definition digit_value :: "char \<Rightarrow> nat" where
  "digit_value c = length (takeWhile (\<lambda>d. d \<noteq> c) ''0123456789'')"

definition decimal_value :: "string \<Rightarrow> nat" where
  "decimal_value key = foldl (\<lambda>n c. 10 * n + digit_value c) 0 key"

definition is_array_index :: "string \<Rightarrow> bool" where
  "is_array_index key =
     (case key of
        [] \<Rightarrow> False
      | c # cs \<Rightarrow>
          list_all is_digit key
          \<and> (if c = CHR ''0'' then cs = [] else True)
          \<and> decimal_value key < 4294967295)"

definition Object_keys :: "(string \<times> 'v) list \<Rightarrow> string list" where
  "Object_keys obj =
     (let keys = map fst obj
      in sort_key decimal_value (filter is_array_index keys)
         @ filter (\<lambda>key. \<not> is_array_index key) keys)"

record shader_config =
  config_uniforms :: "(string \<times> nat) list option"

definition sources_get :: "(string \<times> string) list \<Rightarrow> string \<Rightarrow> string" where
  "sources_get sources ident = (case map_of sources ident of None \<Rightarrow> ''undefined'' | Some s \<Rightarrow> s)"

definition shader_uniforms :: "(string \<Rightarrow> shader_config option) \<Rightarrow> string \<Rightarrow> Uniforms option" where
  "shader_uniforms shaders ident =
     (case shaders ident of
        None \<Rightarrow> None
      | Some c \<Rightarrow> map_option (map (\<lambda>(name, tag). (name, UserSetter tag))) (config_uniforms c))"

text \<open>
  \<^verbatim>\<open>Object.assign(target, source)\<close> writes the properties of \<open>source\<close> into \<open>target\<close> itself and
  returns \<open>target\<close>; an undefined source is skipped.  The caller of the model passes the returned
  table on as the new value of the one shared object.
\<close>

definition Object_assign :: "Uniforms \<Rightarrow> Uniforms option \<Rightarrow> Uniforms" where
  "Object_assign target source =
     (case source of
        None \<Rightarrow> target
      | Some props \<Rightarrow> fold (\<lambda>(name, s). AList.update name s) props target)"

text \<open>
  The callback of \<^verbatim>\<open>sourceIds.map\<close>, run over the ids that are left; \<open>table\<close> is the current
  content of the object \<^verbatim>\<open>defaultUniforms\<close>, which every round assigns into.
\<close>

fun map_sourceIds ::
  "host \<Rightarrow> GlWrapper \<Rightarrow> (string \<times> string) list \<Rightarrow> (string \<Rightarrow> shader_config option) \<Rightarrow> int
     \<Rightarrow> string list \<Rightarrow> int \<Rightarrow> Uniforms \<Rightarrow> world \<Rightarrow> (error + ProgramWrapper list) \<times> world" where
  "map_sourceIds h g sources shaders imageIndex [] index table w = (Inr [], w)"
| "map_sourceIds h g sources shaders imageIndex (ident # ids) index table w =
     (case initProgram h g ident VERTEX_SHADER (sources_get sources ident) w of
        (Inl e, w1) \<Rightarrow> (Inl e, w1)
      | (Inr prog, w1) \<Rightarrow>
          (let table1 = Object_assign table (shader_uniforms shaders ident);
               buffered = (index < imageIndex)
           in case wrapProgram h g ident prog VERTEX_ATTRIBUTE table1 buffered w1 of
                (wrapper, w2) \<Rightarrow>
                  (case map_sourceIds h g sources shaders imageIndex ids (index + 1) table1 w2 of
                     (Inl e, w3) \<Rightarrow> (Inl e, w3)
                   | (Inr ps, w3) \<Rightarrow> (Inr (wrapper # ps), w3))))"

text \<open>
  \<^verbatim>\<open>doShade\<close> up to the first call of \<^verbatim>\<open>animate\<close>.
\<close>

definition doShade_setup ::
  "host \<Rightarrow> canvas \<Rightarrow> (string \<times> string) list \<Rightarrow> (string \<Rightarrow> shader_config option) \<Rightarrow> world
     \<Rightarrow> (error + driver) \<times> world" where
  "doShade_setup h can sources shaders w =
     (case GlWrapper_new h GlError w of
        (Inl e, w1) \<Rightarrow> (Inl e, w1)
      | (Inr g, w1) \<Rightarrow>
          (let sourceIds = Object_keys sources;
               imageIndex = int (length sourceIds) - 1
           in case map_sourceIds h g sources shaders imageIndex sourceIds 0 defaultUniforms w1 of
                (Inl e, w2) \<Rightarrow> (Inl e, w2)
              | (Inr ps, w2) \<Rightarrow>
                  (Inr \<lparr>canvas = can\<lparr>width := 0, height := 0\<rparr>, glWrapper = g, frame = 0,
                        time = 0, minDimension = 0, programs = ps\<rparr>, w2)))"

subsection \<open>The loop\<close>

text \<open>
  One call of \<^verbatim>\<open>animate\<close>; \<open>performance_now\<close> is what the clock answers in this call.
\<close>

definition animate :: "real \<Rightarrow> driver \<times> world \<Rightarrow> driver \<times> world" where
  "animate performance_now s =
     (case s of
        (d0, w0) \<Rightarrow>
          (let d1 = d0\<lparr>time := performance_now / 1000\<rparr>;
               (d2, w2) =
                 (if isResized (canvas d1) then
                    (let da = d1\<lparr>canvas := updateSize (canvas d1)\<rparr>;
                         wa = updateViewportSize (canvas da) w0;
                         db = da\<lparr>minDimension := min (width (canvas da)) (height (canvas da))\<rparr>;
                         dc = db\<lparr>frame := 0\<rparr>;
                         wc = emit (SetFrame 0) wa
                     in case forEach (\<lambda>p. init p (width (canvas dc)) (height (canvas dc)))
                               (programs dc) wc of
                          (ps, wd) \<Rightarrow> (dc\<lparr>programs := ps\<rparr>, wd))
                  else (d1, w0));
               w3 = fold (\<lambda>p. draw d2 p (drawQuad (glWrapper d2) (vertex p))) (programs d2) w2;
               d3 = d2\<lparr>frame := frame d2 + 1\<rparr>;
               w4 = emit (SetFrame (frame d3)) w3
           in case forEach afterFrame (programs d3) w4 of
                (ps, w5) \<Rightarrow> (d3\<lparr>programs := ps\<rparr>, w5)))"

text \<open>
  Between two calls of \<^verbatim>\<open>animate\<close> the host may lay the page out again and the clock moves
  on: \<open>frame_input\<close> is what one call finds.  \<^verbatim>\<open>requestAnimationFrame(animate)\<close> makes the loop
  endless; a run is observed on the finite list of the calls made so far.
\<close>

record frame_input =
  now :: real
  layoutWidth :: int
  layoutHeight :: int

definition tick :: "frame_input \<Rightarrow> driver \<times> world \<Rightarrow> driver \<times> world" where
  "tick i s =
     (case s of
        (d, w) \<Rightarrow>
          animate (now i)
            (d\<lparr>canvas := (canvas d)\<lparr>clientWidth := layoutWidth i, clientHeight := layoutHeight i\<rparr>\<rparr>, w))"

definition doShade ::
  "host \<Rightarrow> canvas \<Rightarrow> (string \<times> string) list \<Rightarrow> (string \<Rightarrow> shader_config option)
     \<Rightarrow> frame_input list \<Rightarrow> world \<Rightarrow> (error + driver) \<times> world" where
  "doShade h can sources shaders inputs w =
     (case doShade_setup h can sources shaders w of
        (Inl e, w1) \<Rightarrow> (Inl e, w1)
      | (Inr d, w1) \<Rightarrow> (case fold tick inputs (d, w1) of (d1, w2) \<Rightarrow> (Inr d1, w2)))"

section \<open>Reading the trace\<close>

text \<open>
  What the claims say about a run is read off the trace.  The steps of the driver are the
  viewport command, the assignments to the frame counter and the calls of the three methods of a
  pass; a draw is the call of \<^verbatim>\<open>draw\<close> on a pass or the command
  \<^verbatim>\<open>gl.drawArrays\<close>; a link is the command \<^verbatim>\<open>gl.linkProgram\<close>.
\<close>

definition is_driver_step :: "event \<Rightarrow> bool" where
  "is_driver_step e =
     (case e of
        Gl c \<Rightarrow> (case c of Viewport x y wd ht \<Rightarrow> True | _ \<Rightarrow> False)
      | SetFrame v \<Rightarrow> True
      | Init i wd ht \<Rightarrow> True
      | Draw i \<Rightarrow> True
      | DrawDone i \<Rightarrow> True
      | AfterFrame i \<Rightarrow> True
      | _ \<Rightarrow> False)"

definition driver_steps :: "event list \<Rightarrow> event list" where
  "driver_steps tr = filter is_driver_step tr"

definition is_draw :: "event \<Rightarrow> bool" where
  "is_draw e =
     (case e of
        Gl c \<Rightarrow> (case c of DrawArrays m f n \<Rightarrow> True | _ \<Rightarrow> False)
      | Draw i \<Rightarrow> True
      | _ \<Rightarrow> False)"

definition draws :: "event list \<Rightarrow> event list" where
  "draws tr = filter is_draw tr"

definition is_link :: "event \<Rightarrow> bool" where
  "is_link e = (case e of Gl c \<Rightarrow> (case c of LinkProgram p \<Rightarrow> True | _ \<Rightarrow> False) | _ \<Rightarrow> False)"

definition links :: "event list \<Rightarrow> event list" where
  "links tr = filter is_link tr"

text \<open>
  Of the setters of the model only \<open>Setter_F\<close> calls \<^verbatim>\<open>gl.uniform1i\<close>, so the uploads
  of the frame counter are the \<^verbatim>\<open>uniform1i\<close> commands of the trace.  \<open>Setter_T\<close> and
  \<open>Setter_D\<close> both call \<^verbatim>\<open>gl.uniform1f\<close>; the uploads of the time are those that go to a
  uniform named \<^verbatim>\<open>T\<close>.
\<close>

definition upload_F :: "event \<Rightarrow> (location \<times> int) list" where
  "upload_F e = (case e of Gl c \<Rightarrow> (case c of Uniform1i l v \<Rightarrow> [(l, v)] | _ \<Rightarrow> []) | _ \<Rightarrow> [])"

definition uploads_F :: "event list \<Rightarrow> (location \<times> int) list" where
  "uploads_F tr = concat (map upload_F tr)"

definition upload_T :: "event \<Rightarrow> (location \<times> real) list" where
  "upload_T e =
     (case e of
        Gl c \<Rightarrow> (case c of
                   Uniform1f l v \<Rightarrow> (case l of Loc p n \<Rightarrow> if n = ''T'' then [(l, v)] else [])
                 | _ \<Rightarrow> [])
      | _ \<Rightarrow> [])"

definition uploads_T :: "event list \<Rightarrow> (location \<times> real) list" where
  "uploads_T tr = concat (map upload_T tr)"

text \<open>
  The one event a call of a setter leaves, and the locations at which the passes call a given
  setter in every draw.
\<close>

definition setter_event :: "driver \<Rightarrow> setter \<Rightarrow> location \<Rightarrow> event" where
  "setter_event d s loc =
     (case s of
        Setter_R \<Rightarrow> Gl (Uniform2f loc (of_int (width (canvas d))) (of_int (height (canvas d))))
      | Setter_T \<Rightarrow> Gl (Uniform1f loc (time d))
      | Setter_F \<Rightarrow> Gl (Uniform1i loc (frame d))
      | Setter_D \<Rightarrow> Gl (Uniform1f loc (of_int (minDimension d)))
      | UserSetter tag \<Rightarrow> UserSetterCall tag loc)"

definition setter_locations :: "setter \<Rightarrow> ProgramWrapper list \<Rightarrow> location list" where
  "setter_locations s0 ps =
     concat (map (\<lambda>us. map (\<lambda>(name, loc, s). loc) (filter (\<lambda>(name, loc, s). s = s0) us))
                 (map uniforms ps))"

text \<open>
  Every entry of a resolved table sits at the location of its own name, the time setter only
  under the name \<^verbatim>\<open>T\<close> and the setter of the minimum dimension never under that name.
\<close>

definition table_named :: "Uniforms \<Rightarrow> bool" where
  "table_named t = (\<forall>(name, s) \<in> set t. (s = Setter_T \<longrightarrow> name = ''T'') \<and> (s = Setter_D \<longrightarrow> name \<noteq> ''T''))"

definition builtins_named :: "(string \<times> location \<times> setter) list \<Rightarrow> bool" where
  "builtins_named us =
     (\<forall>(name, loc, s) \<in> set us.
        (\<exists>prog. loc = Loc prog name) \<and> (s = Setter_T \<longrightarrow> name = ''T'') \<and> (s = Setter_D \<longrightarrow> name \<noteq> ''T''))"

text \<open>
  Both shaders of a pass compile; the content of the shared table after the rounds of
  \<^verbatim>\<open>sourceIds.map\<close> for the given ids; a call of \<^verbatim>\<open>animate\<close> finds the layout size
  different from the size of the backing store.
\<close>

definition compiles :: "host \<Rightarrow> (string \<times> string) list \<Rightarrow> string \<Rightarrow> bool" where
  "compiles h sources ident =
     (compile_status h VERTEX_SHADER_T VERTEX_SHADER
      \<and> compile_status h FRAGMENT_SHADER_T (sources_get sources ident))"

definition merged_uniforms :: "(string \<Rightarrow> shader_config option) \<Rightarrow> string list \<Rightarrow> Uniforms \<Rightarrow> Uniforms" where
  "merged_uniforms shaders ids table =
     fold (\<lambda>ident t. Object_assign t (shader_uniforms shaders ident)) ids table"

definition resized :: "driver \<Rightarrow> frame_input \<Rightarrow> bool" where
  "resized d i = ((width (canvas d), height (canvas d)) \<noteq> (layoutWidth i, layoutHeight i))"

text \<open>
  The frame counter as the specification words it: 0 in a frame that finds the size changed,
  otherwise one more than in the frame before.  \<open>sz\<close> is the size the frame before left, \<open>f\<close>
  the value the counter would have without a resize.
\<close>

fun spec_frame_counter :: "int \<times> int \<Rightarrow> int \<Rightarrow> frame_input list \<Rightarrow> int list" where
  "spec_frame_counter sz f [] = []"
| "spec_frame_counter sz f (i # inputs) =
     (let f0 = (if sz \<noteq> (layoutWidth i, layoutHeight i) then 0 else f)
      in f0 # spec_frame_counter (layoutWidth i, layoutHeight i) (f0 + 1) inputs)"

section \<open>A concrete run\<close>

text \<open>
  A host on which everything succeeds, two passes of which the first brings a setter of its own,
  and three calls of \<^verbatim>\<open>animate\<close>: the first finds the canvas laid out at 640 x 480, the
  third at 800 x 480.
\<close>

definition example_host :: host where
  "example_host = \<lparr>getContext_webgl2 = True, getContext_webgl = True,
     supported_extension = (\<lambda>e. True),
     compile_status = (\<lambda>ty src. True),
     shader_info_log = (\<lambda>ty src. Some []),
     link_status = (\<lambda>p. True),
     uniform_active = (\<lambda>p n. n \<in> set [''T'', ''F'', ''X'']),
     attrib_location = (\<lambda>p n. 0)\<rparr>"

definition example_world :: world where
  "example_world = \<lparr>trace = [], fresh = 0, bound_texture = None, tex_image = (\<lambda>t. None)\<rparr>"

definition example_canvas :: canvas where
  "example_canvas = \<lparr>width = 300, height = 150, clientWidth = 0, clientHeight = 0\<rparr>"

definition example_sources :: "(string \<times> string) list" where
  "example_sources = [(''a'', ''void main(){}''), (''b'', ''void main(){gl_FragColor=vec4(1);}'')]"

definition example_shaders :: "string \<Rightarrow> shader_config option" where
  "example_shaders = [''a'' \<mapsto> \<lparr>config_uniforms = Some [(''X'', 7)]\<rparr>]"

definition example_inputs :: "frame_input list" where
  "example_inputs = [\<lparr>now = 5000, layoutWidth = 640, layoutHeight = 480\<rparr>,
              \<lparr>now = 5016, layoutWidth = 640, layoutHeight = 480\<rparr>,
              \<lparr>now = 5032, layoutWidth = 800, layoutHeight = 480\<rparr>]"

text \<open>
  A driver between two frames: one buffered pass, one plain pass, the frame counter at 5 and a
  canvas whose layout size has just changed.
\<close>

definition example_driver :: driver where
  "example_driver =
     \<lparr>canvas = \<lparr>width = 0, height = 0, clientWidth = 640, clientHeight = 480\<rparr>,
      glWrapper = \<lparr>glErrorFactory = GlError, strategy = WebGl2Strategy, quad = 0\<rparr>,
      frame = 5, time = 0, minDimension = 0,
      programs =
        [\<lparr>id_w = ''a'', program = 3, uniforms = [], vertex = 0,
          buffer = Some \<lparr>fbo = 4, buffer_strategy = WebGl2Strategy,
                          inTexture = None, outTexture = None\<rparr>\<rparr>,
         \<lparr>id_w = ''b'', program = 7, uniforms = [], vertex = 0, buffer = None\<rparr>]\<rparr>"

section \<open>What the specification says, and hosts that fail\<close>

text \<open>
  The setters that the configuration record of a pass brings (none, if the pass has no record or
  the record no table).
\<close>

definition user_table :: "(string \<Rightarrow> shader_config option) \<Rightarrow> string \<Rightarrow> Uniforms" where
  "user_table shaders ident = (case shader_uniforms shaders ident of None \<Rightarrow> [] | Some t \<Rightarrow> t)"

text \<open>
  The elapsed time as the specification words it: seconds since the driver started, the start
  being the first call of \<^verbatim>\<open>animate\<close>; and the uploads a run would make if every frame
  sent that value to each of the given locations.
\<close>

fun spec_elapsed :: "frame_input list \<Rightarrow> real list" where
  "spec_elapsed [] = []"
| "spec_elapsed (i # inputs) = map (\<lambda>j. (now j - now i) / 1000) (i # inputs)"

definition spec_uploads_T :: "location list \<Rightarrow> frame_input list \<Rightarrow> (location \<times> real) list" where
  "spec_uploads_T locs inputs = concat (map (\<lambda>v. map (\<lambda>l. (l, v)) locs) (spec_elapsed inputs))"

text \<open>
  A run ends in a \<^verbatim>\<open>shaderWebBackground.ConfigError\<close>.
\<close>

definition raises_ConfigError :: "(error + 'a) \<times> world \<Rightarrow> bool" where
  "raises_ConfigError r = (case fst r of Inl (ConfigError m) \<Rightarrow> True | _ \<Rightarrow> False)"

text \<open>
  Hosts on which one capability is missing: no context at all; a WebGL 2 context without
  \<^verbatim>\<open>EXT_color_buffer_float\<close>; a WebGL 1 context without \<^verbatim>\<open>OES_texture_half_float\<close>, and one
  without \<^verbatim>\<open>OES_texture_half_float_linear\<close>.
\<close>

definition host_no_context :: host where
  "host_no_context = example_host\<lparr>getContext_webgl2 := False, getContext_webgl := False\<rparr>"

definition host_webgl2_without_float :: host where
  "host_webgl2_without_float =
     example_host\<lparr>supported_extension := (\<lambda>e. e \<noteq> ''EXT_color_buffer_float'')\<rparr>"

definition host_webgl1_without_half_float :: host where
  "host_webgl1_without_half_float =
     example_host\<lparr>getContext_webgl2 := False,
                   supported_extension := (\<lambda>e. e \<noteq> ''OES_texture_half_float'')\<rparr>"

definition host_webgl1_without_linear :: host where
  "host_webgl1_without_linear =
     example_host\<lparr>getContext_webgl2 := False,
                   supported_extension := (\<lambda>e. e \<noteq> ''OES_texture_half_float_linear'')\<rparr>"

text \<open>
  A host whose compiler rejects the fragment shader of the second pass of the concrete run, and a
  host on which every shader compiles and no program links (so that no uniform has a location
  and the vertex attribute has location -1), with a source whose fragment shader reads a varying
  that the vertex shader never writes.
\<close>

definition host_bad_fragment :: host where
  "host_bad_fragment =
     example_host\<lparr>compile_status := (\<lambda>ty src. src \<noteq> ''void main(){gl_FragColor=vec4(1);}''),
                   shader_info_log := (\<lambda>ty src. Some ''ERROR: 0:1'')\<rparr>"

definition host_link_fails :: host where
  "host_link_fails =
     example_host\<lparr>link_status := (\<lambda>p. False), uniform_active := (\<lambda>p n. False),
                   attrib_location := (\<lambda>p n. - 1)\<rparr>"

definition single_source :: "(string \<times> string) list" where
  "single_source =
     [(''a'', ''precision mediump float;varying vec2 v;void main(){gl_FragColor=vec4(v,0,1);}'')]"




section \<open>Lemmas\<close>

subsection \<open>The trace of the basic operations\<close>

lemma trace_gl_effect [simp]: "trace (gl_effect c w) = trace w"
  by (cases c) (auto split: option.splits)

lemma fresh_gl_effect [simp]: "fresh (gl_effect c w) = fresh w"
  by (cases c) (auto split: option.splits)

lemma trace_emit [simp]: "trace (emit e w) = trace w @ [e]"
  by (simp add: emit_def)

lemma fresh_emit [simp]: "fresh (emit e w) = fresh w"
  by (simp add: emit_def)

lemma trace_gl [simp]: "trace (gl c w) = trace w @ [Gl c]"
  by (simp add: gl_def)

lemma fresh_gl [simp]: "fresh (gl c w) = fresh w"
  by (simp add: gl_def)

lemma gl_create_simps [simp]:
  "fst (gl_create mk w) = fresh w"
  "trace (snd (gl_create mk w)) = trace w @ [Gl (mk (fresh w))]"
  "fresh (snd (gl_create mk w)) = Suc (fresh w)"
  by (simp_all add: gl_create_def)

lemma driver_steps_simps [simp]:
  "driver_steps [] = []"
  "driver_steps (xs @ ys) = driver_steps xs @ driver_steps ys"
  "driver_steps (e # xs) = (if is_driver_step e then e # driver_steps xs else driver_steps xs)"
  by (simp_all add: driver_steps_def)

lemma draws_simps [simp]:
  "draws [] = []"
  "draws (xs @ ys) = draws xs @ draws ys"
  "draws (e # xs) = (if is_draw e then e # draws xs else draws xs)"
  by (simp_all add: draws_def)

lemma uploads_F_simps [simp]:
  "uploads_F [] = []"
  "uploads_F (xs @ ys) = uploads_F xs @ uploads_F ys"
  "uploads_F (e # xs) = upload_F e @ uploads_F xs"
  by (simp_all add: uploads_F_def)

lemma uploads_T_simps [simp]:
  "uploads_T [] = []"
  "uploads_T (xs @ ys) = uploads_T xs @ uploads_T ys"
  "uploads_T (e # xs) = upload_T e @ uploads_T xs"
  by (simp_all add: uploads_T_def)

subsection \<open>What the methods of a pass add to the trace\<close>

lemma trace_drawQuad:
  "trace (drawQuad g v w) = trace w @ map Gl [BindBuffer ARRAY_BUFFER (Some (quad g)),
              EnableVertexAttribArray v,
              VertexAttribPointer v 2 FLOAT False 0 0,
              DrawArrays TRIANGLE_STRIP 0 4,
              BindBuffer ARRAY_BUFFER None]"
  by (simp add: drawQuad_def)

lemma drawQuad_proj:
  "driver_steps (trace (drawQuad g v w)) = driver_steps (trace w)"
  "draws (trace (drawQuad g v w)) = draws (trace w) @ [Gl (DrawArrays TRIANGLE_STRIP 0 4)]"
  "uploads_F (trace (drawQuad g v w)) = uploads_F (trace w)"
  "uploads_T (trace (drawQuad g v w)) = uploads_T (trace w)"
  by (simp_all add: trace_drawQuad is_driver_step_def is_draw_def upload_F_def upload_T_def)

lemma trace_call_setter: "trace (call_setter d s l w) = trace w @ [setter_event d s l]"
  by (cases s) (simp_all add: setter_event_def)

lemma trace_fold_setters:
  "trace (fold (\<lambda>(name, loc, s). call_setter d s loc) us w)
     = trace w @ map (\<lambda>(name, loc, s). setter_event d s loc) us"
  by (induction us arbitrary: w) (auto simp: trace_call_setter)

lemma trace_DoubleBuffer_draw:
  "trace (DoubleBuffer_draw b (drawQuad g v) w)
     = trace w @ map Gl
        [BindFramebuffer FRAMEBUFFER (Some (fbo b)),
         FramebufferTexture2D FRAMEBUFFER COLOR_ATTACHMENT0 TEXTURE_2D (outTexture b) 0,
         ActiveTexture TEXTURE0,
         BindTexture TEXTURE_2D (inTexture b),
         BindBuffer ARRAY_BUFFER (Some (quad g)),
         EnableVertexAttribArray v,
         VertexAttribPointer v 2 FLOAT False 0 0,
         DrawArrays TRIANGLE_STRIP 0 4,
         BindBuffer ARRAY_BUFFER None,
         FramebufferTexture2D FRAMEBUFFER COLOR_ATTACHMENT0 TEXTURE_2D None 0,
         BindTexture TEXTURE_2D None,
         BindFramebuffer FRAMEBUFFER None]"
  by (simp add: Let_def DoubleBuffer_draw_def trace_drawQuad)

lemma trace_draw:
  "trace (draw d p (drawQuad g v) w)
     = trace w @ [Draw (id_w p), Gl (UseProgram (program p))]
       @ map (\<lambda>(name, loc, s). setter_event d s loc) (uniforms p)
       @ (case buffer p of
            None \<Rightarrow> map Gl [BindBuffer ARRAY_BUFFER (Some (quad g)),
                         EnableVertexAttribArray v,
                         VertexAttribPointer v 2 FLOAT False 0 0,
                         DrawArrays TRIANGLE_STRIP 0 4,
                         BindBuffer ARRAY_BUFFER None]
          | Some b \<Rightarrow> map Gl
             [BindFramebuffer FRAMEBUFFER (Some (fbo b)),
              FramebufferTexture2D FRAMEBUFFER COLOR_ATTACHMENT0 TEXTURE_2D (outTexture b) 0,
              ActiveTexture TEXTURE0,
              BindTexture TEXTURE_2D (inTexture b),
              BindBuffer ARRAY_BUFFER (Some (quad g)),
              EnableVertexAttribArray v,
              VertexAttribPointer v 2 FLOAT False 0 0,
              DrawArrays TRIANGLE_STRIP 0 4,
              BindBuffer ARRAY_BUFFER None,
              FramebufferTexture2D FRAMEBUFFER COLOR_ATTACHMENT0 TEXTURE_2D None 0,
              BindTexture TEXTURE_2D None,
              BindFramebuffer FRAMEBUFFER None])
       @ [DrawDone (id_w p)]"
  by (cases "buffer p")
     (simp_all add: Let_def draw_def ProgramWrapper_draw_def BufferedProgramWrapper_draw_def
        trace_drawQuad trace_DoubleBuffer_draw trace_fold_setters)

lemma setters_no_step:
  "driver_steps (map (\<lambda>(name, loc, s). setter_event d s loc) us) = []"
  "draws (map (\<lambda>(name, loc, s). setter_event d s loc) us) = []"
  by (induction us) (auto simp: setter_event_def is_driver_step_def is_draw_def split: setter.splits)

lemma draw_steps:
  "driver_steps (trace (draw d p (drawQuad g v) w))
     = driver_steps (trace w) @ [Draw (id_w p), DrawDone (id_w p)]"
  by (cases "buffer p") (simp_all add: trace_draw setters_no_step is_driver_step_def)


lemma init_steps:
  "driver_steps (trace (snd (init p wd ht w))) = driver_steps (trace w) @ [Init (id_w p) wd ht]"
  by (cases "buffer p"; cases "buffer_strategy (the (buffer p))")
     (simp_all add: Let_def init_def ProgramWrapper_init_def BufferedProgramWrapper_init_def
        DoubleBuffer_init_def createTexture_def deleteTextures_def gl_create_def
        is_driver_step_def split: prod.splits)

lemma init_fields:
  "id_w (fst (init p wd ht w)) = id_w p"
  "program (fst (init p wd ht w)) = program p"
  "uniforms (fst (init p wd ht w)) = uniforms p"
  "vertex (fst (init p wd ht w)) = vertex p"
  "(buffer (fst (init p wd ht w)) = None) = (buffer p = None)"
  by (simp_all add: Let_def init_def ProgramWrapper_init_def BufferedProgramWrapper_init_def
        split: prod.splits option.splits)

lemma afterFrame_steps:
  "trace (snd (afterFrame p w)) = trace w @ [AfterFrame (id_w p)]"
  by (simp add: Let_def afterFrame_def split: option.splits)

lemma afterFrame_fields:
  "id_w (fst (afterFrame p w)) = id_w p"
  "program (fst (afterFrame p w)) = program p"
  "uniforms (fst (afterFrame p w)) = uniforms p"
  "vertex (fst (afterFrame p w)) = vertex p"
  "(buffer (fst (afterFrame p w)) = None) = (buffer p = None)"
  by (simp_all add: Let_def afterFrame_def split: option.splits)

lemma forEach_map:
  assumes "\<And>p w. g (fst (f p w)) = g p"
  shows "map g (fst (forEach f ps w)) = map g ps"
  using assms by (induction ps arbitrary: w) (simp_all add: case_prod_beta)

lemma forEach_init_steps:
  "driver_steps (trace (snd (forEach (\<lambda>p. init p wd ht) ps w)))
     = driver_steps (trace w) @ map (\<lambda>i. Init i wd ht) (map id_w ps)"
proof (induction ps arbitrary: w)
  case Nil
  show ?case by simp
next
  case (Cons p ps)
  show ?case
    using Cons.IH [of "snd (init p wd ht w)"] init_steps [of p wd ht w]
    by (simp add: case_prod_beta)
qed

lemma forEach_afterFrame_trace:
  "trace (snd (forEach afterFrame ps w)) = trace w @ map AfterFrame (map id_w ps)"
proof (induction ps arbitrary: w)
  case Nil
  show ?case by simp
next
  case (Cons p ps)
  show ?case
    using Cons.IH [of "snd (afterFrame p w)"] afterFrame_steps [of p w]
    by (simp add: case_prod_beta)
qed

lemma fold_draw_steps:
  "driver_steps (trace (fold (\<lambda>p. draw d p (drawQuad g (vertex p))) ps w))
     = driver_steps (trace w) @ concat (map (\<lambda>i. [Draw i, DrawDone i]) (map id_w ps))"
  by (induction ps arbitrary: w) (simp_all add: draw_steps)

lemma steps_AfterFrame: "driver_steps (map (AfterFrame \<circ> f) ps) = map (AfterFrame \<circ> f) ps"
  by (induction ps) (simp_all add: is_driver_step_def)

subsection \<open>Setup: the wrapper of the context and the programs\<close>

lemma links_simps [simp]:
  "links [] = []"
  "links (xs @ ys) = links xs @ links ys"
  "links (e # xs) = (if is_link e then e # links xs else links xs)"
  by (simp_all add: links_def)

lemmas proj_defs = is_driver_step_def is_draw_def upload_F_def upload_T_def is_link_def

lemma GlWrapper_new_cases:
  "(\<exists>m. GlWrapper_new h factory w = (Inl (factory m), w))
   \<or> (\<exists>g w1. GlWrapper_new h factory w = (Inr g, w1) \<and> glErrorFactory g = factory
        \<and> draws (trace w1) = draws (trace w)
        \<and> uploads_F (trace w1) = uploads_F (trace w)
        \<and> uploads_T (trace w1) = uploads_T (trace w)
        \<and> links (trace w1) = links (trace w))"
  by (auto simp: GlWrapper_new_def GlWrapper_check_def WebGl1Strategy_new_def WebGl2Strategy_new_def
        getExtension_def gl_create_def proj_defs
        split: option.splits sum.splits context_type.splits)

lemma loadShader_proj:
  "draws (trace (snd (loadShader h g ident ty src w))) = draws (trace w)"
  "uploads_F (trace (snd (loadShader h g ident ty src w))) = uploads_F (trace w)"
  "uploads_T (trace (snd (loadShader h g ident ty src w))) = uploads_T (trace w)"
  "links (trace (snd (loadShader h g ident ty src w))) = links (trace w)"
  by (simp_all add: loadShader_def gl_create_def Let_def proj_defs)

lemma loadShader_result:
  "fst (loadShader h g ident ty src w) =
     (if compile_status h ty src then Inr (fresh w)
      else Inl (glErrorFactory g (''Cannot compile shader - '' @ ident @ '': ''
                                    @ String_js (shader_info_log h ty src))))"
  by (simp add: loadShader_def gl_create_def Let_def)

lemma initProgram_proj:
  "draws (trace (snd (initProgram h g ident vs fs w))) = draws (trace w)"
  "uploads_F (trace (snd (initProgram h g ident vs fs w))) = uploads_F (trace w)"
  "uploads_T (trace (snd (initProgram h g ident vs fs w))) = uploads_T (trace w)"
  by (cases "compile_status h VERTEX_SHADER_T vs"; cases "compile_status h FRAGMENT_SHADER_T fs";
      simp add: initProgram_def loadShader_def gl_create_def Let_def proj_defs)+

lemma initProgram_result:
  "fst (initProgram h g ident vs fs w) =
     (if \<not> compile_status h VERTEX_SHADER_T vs then
        Inl (glErrorFactory g (''Cannot compile shader - '' @ ident @ '': ''
               @ String_js (shader_info_log h VERTEX_SHADER_T vs)))
      else if \<not> compile_status h FRAGMENT_SHADER_T fs then
        Inl (glErrorFactory g (''Cannot compile shader - '' @ ident @ '': ''
               @ String_js (shader_info_log h FRAGMENT_SHADER_T fs)))
      else Inr (fresh w + 2))"
  by (cases "compile_status h VERTEX_SHADER_T vs"; cases "compile_status h FRAGMENT_SHADER_T fs";
      simp add: initProgram_def loadShader_def gl_create_def Let_def)

lemma initProgram_links:
  "links (trace (snd (initProgram h g ident vs fs w))) =
     links (trace w) @
       (if compile_status h VERTEX_SHADER_T vs \<and> compile_status h FRAGMENT_SHADER_T fs
        then [Gl (LinkProgram (fresh w + 2))] else [])"
  by (cases "compile_status h VERTEX_SHADER_T vs"; cases "compile_status h FRAGMENT_SHADER_T fs";
      simp add: initProgram_def loadShader_def gl_create_def Let_def proj_defs)

lemma initProgram_fresh:
  "compile_status h VERTEX_SHADER_T vs \<Longrightarrow> compile_status h FRAGMENT_SHADER_T fs \<Longrightarrow>
     fresh (snd (initProgram h g ident vs fs w)) = fresh w + 3"
  by (simp add: initProgram_def loadShader_def gl_create_def Let_def)

lemma wrapProgram_proj:
  "draws (trace (snd (wrapProgram h g ident prog va table buffered w))) = draws (trace w)"
  "uploads_F (trace (snd (wrapProgram h g ident prog va table buffered w))) = uploads_F (trace w)"
  "uploads_T (trace (snd (wrapProgram h g ident prog va table buffered w))) = uploads_T (trace w)"
  "links (trace (snd (wrapProgram h g ident prog va table buffered w))) = links (trace w)"
  by (simp_all add: wrapProgram_def DoubleBuffer_new_def gl_create_def proj_defs)

lemma wrapProgram_fields:
  "id_w (fst (wrapProgram h g ident prog va table buffered w)) = ident"
  "program (fst (wrapProgram h g ident prog va table buffered w)) = prog"
  "uniforms (fst (wrapProgram h g ident prog va table buffered w)) = resolve_uniforms h prog table"
  "(buffer (fst (wrapProgram h g ident prog va table buffered w)) = None) = (\<not> buffered)"
  by (simp_all add: wrapProgram_def DoubleBuffer_new_def gl_create_def
        ProgramWrapper_new_def BufferedProgramWrapper_new_def)

subsection \<open>The keys of an object\<close>

lemma length_Object_keys [simp]: "length (Object_keys obj) = length obj"
proof -
  have "length (filter is_array_index (map fst obj))
          + length (filter (\<lambda>key. \<not> is_array_index key) (map fst obj)) = length (map fst obj)"
    by (rule sum_length_filter_compl)
  then show ?thesis by (simp add: Object_keys_def Let_def)
qed

lemma set_Object_keys [simp]: "set (Object_keys obj) = fst ` set obj"
  by (auto simp: Object_keys_def Let_def)


lemmas key_defs = Object_keys_def is_array_index_def is_digit_def decimal_value_def digit_value_def

subsection \<open>Setup: the list of passes\<close>

lemma map_sourceIds_Cons:
  "map_sourceIds h g sources shaders ix (ident # ids) index table w =
     (let r1 = initProgram h g ident VERTEX_SHADER (sources_get sources ident) w in
      case fst r1 of
        Inl e \<Rightarrow> (Inl e, snd r1)
      | Inr prog \<Rightarrow>
          (let table1 = Object_assign table (shader_uniforms shaders ident);
               r2 = wrapProgram h g ident prog VERTEX_ATTRIBUTE table1 (index < ix) (snd r1);
               r3 = map_sourceIds h g sources shaders ix ids (index + 1) table1 (snd r2)
           in case fst r3 of
                Inl e \<Rightarrow> (Inl e, snd r3)
              | Inr ps \<Rightarrow> (Inr (fst r2 # ps), snd r3)))"
  by (simp add: Let_def split: prod.splits sum.splits)

lemma map_sourceIds_proj:
  "draws (trace (snd (map_sourceIds h g sources shaders ix ids index table w))) = draws (trace w)
   \<and> uploads_F (trace (snd (map_sourceIds h g sources shaders ix ids index table w))) = uploads_F (trace w)
   \<and> uploads_T (trace (snd (map_sourceIds h g sources shaders ix ids index table w))) = uploads_T (trace w)"
proof (induction ids arbitrary: index table w)
  case Nil
  show ?case by simp
next
  case (Cons ident ids)
  show ?case
    unfolding map_sourceIds_Cons
    by (simp add: Let_def Cons.IH initProgram_proj wrapProgram_proj split: sum.splits)
qed

lemma map_sourceIds_error:
  "fst (map_sourceIds h g sources shaders ix ids index table w) = Inl e \<Longrightarrow>
     \<exists>m. e = glErrorFactory g m"
proof (induction ids arbitrary: index table w)
  case Nil
  then show ?case by simp
next
  case (Cons ident ids)
  from Cons.prems show ?case
    unfolding map_sourceIds_Cons
    by (auto simp: Let_def initProgram_result split: sum.splits if_splits dest: Cons.IH)
qed

lemma map_sourceIds_fails:
  "ident \<in> set ids \<Longrightarrow> \<not> compiles h sources ident \<Longrightarrow>
     \<exists>e. fst (map_sourceIds h g sources shaders ix ids index table w) = Inl e"
proof (induction ids arbitrary: index table w)
  case Nil
  then show ?case by simp
next
  case (Cons i ids)
  show ?case
  proof (cases "compiles h sources i")
    case False
    then show ?thesis
      unfolding map_sourceIds_Cons
      by (auto simp: Let_def initProgram_result compiles_def split: sum.splits)
  next
    case True
    with Cons.prems have "ident \<in> set ids" by auto
    from Cons.IH [OF this Cons.prems(2)] show ?thesis
      unfolding map_sourceIds_Cons
      by (simp add: Let_def split: sum.splits) (metis sum.distinct(1))
  qed
qed


lemma map_sourceIds_passes:
  "fst (map_sourceIds h g sources shaders ix ids index table w) = Inr ps \<Longrightarrow>
     length ps = length ids
     \<and> (\<forall>k < length ids.
          id_w (ps ! k) = ids ! k
          \<and> (buffer (ps ! k) = None) = (\<not> index + int k < ix)
          \<and> uniforms (ps ! k)
              = resolve_uniforms h (program (ps ! k)) (merged_uniforms shaders (take (Suc k) ids) table))"
proof (induction ids arbitrary: index table w ps)
  case Nil
  then show ?case by simp
next
  case (Cons ident ids)
  let ?r1 = "initProgram h g ident VERTEX_SHADER (sources_get sources ident) w"
  let ?t1 = "Object_assign table (shader_uniforms shaders ident)"
  from Cons.prems obtain prog where prog: "fst ?r1 = Inr prog"
    unfolding map_sourceIds_Cons by (auto simp: Let_def split: sum.splits)
  let ?r2 = "wrapProgram h g ident prog VERTEX_ATTRIBUTE ?t1 (index < ix) (snd ?r1)"
  let ?r3 = "map_sourceIds h g sources shaders ix ids (index + 1) ?t1 (snd ?r2)"
  from Cons.prems prog obtain qs where qs: "fst ?r3 = Inr qs" and ps: "ps = fst ?r2 # qs"
    unfolding map_sourceIds_Cons by (auto simp: Let_def split: sum.splits)
  note IH = Cons.IH [OF qs]
  show ?case
  proof (intro conjI allI impI)
    show "length ps = length (ident # ids)" using IH ps by simp
  next
    fix k assume k: "k < length (ident # ids)"
    show "id_w (ps ! k) = (ident # ids) ! k"
      using IH k ps by (cases k) (simp_all add: wrapProgram_fields)
    show "(buffer (ps ! k) = None) = (\<not> index + int k < ix)"
      using IH k ps by (cases k) (simp_all add: wrapProgram_fields add.assoc)
    show "uniforms (ps ! k)
            = resolve_uniforms h (program (ps ! k)) (merged_uniforms shaders (take (Suc k) (ident # ids)) table)"
      using IH k ps by (cases k) (simp_all add: wrapProgram_fields merged_uniforms_def)
  qed
qed

subsection \<open>Uploads and draws of one frame\<close>

lemma setters_uploads_F:
  "uploads_F (map (\<lambda>(name, loc, s). setter_event d s loc) us)
     = map (\<lambda>l. (l, frame d)) (map (\<lambda>(name, loc, s). loc) (filter (\<lambda>(name, loc, s). s = Setter_F) us))"
  by (induction us) (auto simp: setter_event_def upload_F_def split: setter.splits)

lemma setters_uploads_T:
  "builtins_named us \<Longrightarrow>
   uploads_T (map (\<lambda>(name, loc, s). setter_event d s loc) us)
     = map (\<lambda>l. (l, time d)) (map (\<lambda>(name, loc, s). loc) (filter (\<lambda>(name, loc, s). s = Setter_T) us))"
  by (induction us) (auto simp: setter_event_def upload_T_def builtins_named_def split: setter.splits)

lemma draw_uploads_F:
  "uploads_F (trace (draw d p (drawQuad g v) w))
     = uploads_F (trace w) @ map (\<lambda>l. (l, frame d)) (setter_locations Setter_F [p])"
  by (cases "buffer p") (simp_all add: trace_draw setters_uploads_F setter_locations_def upload_F_def)

lemma draw_uploads_T:
  "builtins_named (uniforms p) \<Longrightarrow>
   uploads_T (trace (draw d p (drawQuad g v) w))
     = uploads_T (trace w) @ map (\<lambda>l. (l, time d)) (setter_locations Setter_T [p])"
  by (cases "buffer p") (simp_all add: trace_draw setters_uploads_T setter_locations_def upload_T_def)

lemma setter_locations_Cons:
  "setter_locations s0 (p # ps) = setter_locations s0 [p] @ setter_locations s0 ps"
  by (simp add: setter_locations_def)

lemma setter_locations_cong:
  "map uniforms ps = map uniforms qs \<Longrightarrow> setter_locations s0 ps = setter_locations s0 qs"
  by (simp add: setter_locations_def)

lemma fold_draw_uploads_F:
  "uploads_F (trace (fold (\<lambda>p. draw d p (drawQuad g (vertex p))) ps w))
     = uploads_F (trace w) @ map (\<lambda>l. (l, frame d)) (setter_locations Setter_F ps)"
proof (induction ps arbitrary: w)
  case Nil
  show ?case by (simp add: setter_locations_def)
next
  case (Cons p ps)
  show ?case
    by (simp add: Cons.IH draw_uploads_F setter_locations_Cons [of _ p ps])
qed

lemma fold_draw_uploads_T:
  "\<forall>p \<in> set ps. builtins_named (uniforms p) \<Longrightarrow>
   uploads_T (trace (fold (\<lambda>p. draw d p (drawQuad g (vertex p))) ps w))
     = uploads_T (trace w) @ map (\<lambda>l. (l, time d)) (setter_locations Setter_T ps)"
proof (induction ps arbitrary: w)
  case Nil
  show ?case by (simp add: setter_locations_def)
next
  case (Cons p ps)
  then show ?case
    by (simp add: draw_uploads_T setter_locations_Cons [of _ p ps])
qed


lemma init_proj:
  "draws (trace (snd (init p wd ht w))) = draws (trace w)"
  "uploads_F (trace (snd (init p wd ht w))) = uploads_F (trace w)"
  "uploads_T (trace (snd (init p wd ht w))) = uploads_T (trace w)"
  by (cases "buffer p"; cases "buffer_strategy (the (buffer p))";
      simp add: Let_def init_def ProgramWrapper_init_def BufferedProgramWrapper_init_def
        DoubleBuffer_init_def createTexture_def deleteTextures_def gl_create_def
        proj_defs split: prod.splits)+

lemma forEach_init_proj:
  "draws (trace (snd (forEach (\<lambda>p. init p wd ht) ps w))) = draws (trace w)
   \<and> uploads_F (trace (snd (forEach (\<lambda>p. init p wd ht) ps w))) = uploads_F (trace w)
   \<and> uploads_T (trace (snd (forEach (\<lambda>p. init p wd ht) ps w))) = uploads_T (trace w)"
  by (induction ps arbitrary: w) (simp_all add: case_prod_beta init_proj)

lemma proj_AfterFrame:
  "draws (map (AfterFrame \<circ> f) ps) = []"
  "uploads_F (map (AfterFrame \<circ> f) ps) = []"
  "uploads_T (map (AfterFrame \<circ> f) ps) = []"
  by (induction ps) (simp_all add: proj_defs)

lemma tick_fields:
  "frame (fst (tick i (d, w))) = (if resized d i then 0 else frame d) + 1"
  "width (canvas (fst (tick i (d, w)))) = layoutWidth i"
  "height (canvas (fst (tick i (d, w)))) = layoutHeight i"
  "glWrapper (fst (tick i (d, w))) = glWrapper d"
  by (auto simp: tick_def animate_def Let_def case_prod_beta isResized_def updateSize_def resized_def)

lemma tick_passes:
  "map id_w (programs (fst (tick i (d, w)))) = map id_w (programs d)"
  "map uniforms (programs (fst (tick i (d, w)))) = map uniforms (programs d)"
  "map (\<lambda>p. buffer p = None) (programs (fst (tick i (d, w)))) = map (\<lambda>p. buffer p = None) (programs d)"
  by (simp_all add: tick_def animate_def Let_def case_prod_beta forEach_map init_fields afterFrame_fields)

lemma tick_uploads_F:
  "uploads_F (trace (snd (tick i (d, w))))
     = uploads_F (trace w)
       @ map (\<lambda>l. (l, if resized d i then 0 else frame d)) (setter_locations Setter_F (programs d))"
  by (simp add: tick_def animate_def Let_def case_prod_beta isResized_def resized_def
        forEach_afterFrame_trace proj_AfterFrame fold_draw_uploads_F forEach_init_proj
        updateViewportSize_def upload_F_def
        setter_locations_cong [OF forEach_map [where g = uniforms, OF init_fields(3)]])


subsection \<open>Built-in setters keep their names\<close>

lemma set_update_subset: "set (AList.update k v al) \<subseteq> insert (k, v) (set al)"
  by (induction al) auto

lemma table_named_update:
  "table_named t \<Longrightarrow> table_named (AList.update name (UserSetter tag) t)"
  using set_update_subset [of name "UserSetter tag" t]
  by (fastforce simp: table_named_def)

lemma table_named_fold_user:
  "table_named t \<Longrightarrow>
   table_named (fold (\<lambda>(name, s). AList.update name s) (map (\<lambda>(name, tag). (name, UserSetter tag)) props) t)"
  by (induction props arbitrary: t) (auto simp: table_named_update)

lemma table_named_assign:
  "table_named t \<Longrightarrow> table_named (Object_assign t (shader_uniforms shaders ident))"
  by (auto simp: Object_assign_def shader_uniforms_def table_named_fold_user split: option.splits)

lemma table_named_merged:
  "table_named t \<Longrightarrow> table_named (merged_uniforms shaders ids t)"
  unfolding merged_uniforms_def
  by (induction ids arbitrary: t) (simp_all add: table_named_assign)

lemma table_named_default: "table_named defaultUniforms"
  by (simp add: table_named_def defaultUniforms_def)

lemma set_resolve_uniforms:
  "set (resolve_uniforms h prog t) = {(name, Loc prog name, s) | name s. (name, s) \<in> set t \<and> uniform_active h prog name}"
  by (induction t) (auto simp: gl_getUniformLocation_def split: if_splits option.splits)

lemma builtins_named_resolve:
  "table_named t \<Longrightarrow> builtins_named (resolve_uniforms h prog t)"
  by (auto simp: builtins_named_def table_named_def set_resolve_uniforms)

lemma fold_draw_uploads_T_uniforms:
  "\<forall>us \<in> set (map uniforms ps). builtins_named us \<Longrightarrow>
   uploads_T (trace (fold (\<lambda>p. draw d p (drawQuad g (vertex p))) ps w))
     = uploads_T (trace w) @ map (\<lambda>l. (l, time d)) (setter_locations Setter_T ps)"
  by (rule fold_draw_uploads_T) simp

lemma tick_uploads_T:
  assumes "\<forall>us \<in> set (map uniforms (programs d)). builtins_named us"
  shows "uploads_T (trace (snd (tick i (d, w))))
     = uploads_T (trace w) @ map (\<lambda>l. (l, now i / 1000)) (setter_locations Setter_T (programs d))"
  using assms
  by (simp add: tick_def animate_def Let_def case_prod_beta
        forEach_afterFrame_trace proj_AfterFrame fold_draw_uploads_T_uniforms forEach_init_proj
        updateViewportSize_def upload_T_def forEach_map [where g = uniforms, OF init_fields(3)]
        setter_locations_cong [OF forEach_map [where g = uniforms, OF init_fields(3)]])

subsection \<open>Runs\<close>

lemma fold_tick_Cons: "fold tick (i # inputs) (d, w) = fold tick inputs (fst (tick i (d, w)), snd (tick i (d, w)))"
  by simp

lemma run_uploads_F:
  "uploads_F (trace (snd (fold tick inputs (d, w))))
     = uploads_F (trace w)
       @ concat (map (\<lambda>v. map (\<lambda>l. (l, v)) (setter_locations Setter_F (programs d)))
                     (spec_frame_counter (width (canvas d), height (canvas d)) (frame d) inputs))"
proof (induction inputs arbitrary: d w)
  case Nil
  show ?case by simp
next
  case (Cons i inputs)
  obtain d1 w1 where t: "tick i (d, w) = (d1, w1)" by (cases "tick i (d, w)")
  have f: "frame d1 = (if resized d i then 0 else frame d) + 1"
    and c: "width (canvas d1) = layoutWidth i" "height (canvas d1) = layoutHeight i"
    using tick_fields [of i d w] t by simp_all
  have l: "setter_locations Setter_F (programs d1) = setter_locations Setter_F (programs d)"
    using setter_locations_cong [OF tick_passes(2), of Setter_F i d w] t by simp
  have u: "uploads_F (trace w1) = uploads_F (trace w)
       @ map (\<lambda>l. (l, if resized d i then 0 else frame d)) (setter_locations Setter_F (programs d))"
    using tick_uploads_F [of i d w] t by simp
  show ?case
    using Cons.IH [of d1 w1] t f c l u by (simp add: Let_def resized_def)
qed

lemma run_uploads_T:
  "\<forall>us \<in> set (map uniforms (programs d)). builtins_named us \<Longrightarrow>
   uploads_T (trace (snd (fold tick inputs (d, w))))
     = uploads_T (trace w)
       @ concat (map (\<lambda>i. map (\<lambda>l. (l, now i / 1000)) (setter_locations Setter_T (programs d))) inputs)"
proof (induction inputs arbitrary: d w)
  case Nil
  show ?case by simp
next
  case (Cons i inputs)
  obtain d1 w1 where t: "tick i (d, w) = (d1, w1)" by (cases "tick i (d, w)")
  have m: "map uniforms (programs d1) = map uniforms (programs d)"
    using tick_passes(2) [of i d w] t by simp
  have n: "\<forall>us \<in> set (map uniforms (programs d1)). builtins_named us"
    using Cons.prems by (simp only: m)
  have l: "setter_locations Setter_T (programs d1) = setter_locations Setter_T (programs d)"
    using setter_locations_cong [OF m] .
  have u: "uploads_T (trace w1) = uploads_T (trace w)
       @ map (\<lambda>l. (l, now i / 1000)) (setter_locations Setter_T (programs d))"
    using tick_uploads_T [OF Cons.prems, of i w] t by simp
  show ?case
    using Cons.IH [OF n, of w1] t l u by simp
qed



subsection \<open>The result of setup\<close>

lemma doShade_setup_unfold:
  "doShade_setup h can sources shaders w =
     (let r0 = GlWrapper_new h GlError w in
      case fst r0 of
        Inl e \<Rightarrow> (Inl e, snd r0)
      | Inr g \<Rightarrow>
          (let r1 = map_sourceIds h g sources shaders (int (length sources) - 1) (Object_keys sources) 0
                      defaultUniforms (snd r0)
           in case fst r1 of
                Inl e \<Rightarrow> (Inl e, snd r1)
              | Inr ps \<Rightarrow>
                  (Inr \<lparr>canvas = can\<lparr>width := 0, height := 0\<rparr>, glWrapper = g, frame = 0,
                        time = 0, minDimension = 0, programs = ps\<rparr>, snd r1)))"
  by (simp add: doShade_setup_def Let_def split: prod.splits sum.splits)

lemma setup_proj:
  "draws (trace (snd (doShade_setup h can sources shaders w))) = draws (trace w)"
  "uploads_F (trace (snd (doShade_setup h can sources shaders w))) = uploads_F (trace w)"
  "uploads_T (trace (snd (doShade_setup h can sources shaders w))) = uploads_T (trace w)"
  using GlWrapper_new_cases [of h GlError w]
  by (auto simp: doShade_setup_unfold Let_def map_sourceIds_proj split: sum.splits)

lemma setup_error:
  "fst (doShade_setup h can sources shaders w) = Inl e \<Longrightarrow> \<exists>m. e = GlError m"
  using GlWrapper_new_cases [of h GlError w]
  by (auto simp: doShade_setup_unfold Let_def split: sum.splits dest!: map_sourceIds_error)

lemma setup_driver:
  assumes "doShade_setup h can sources shaders w = (Inr d, w1)"
  shows "frame d = 0 \<and> width (canvas d) = 0 \<and> height (canvas d) = 0
     \<and> fst (map_sourceIds h (glWrapper d) sources shaders (int (length sources) - 1) (Object_keys sources) 0
              defaultUniforms (snd (GlWrapper_new h GlError w))) = Inr (programs d)"
  using assms
  by (auto simp: doShade_setup_unfold Let_def split: sum.splits)

lemmas example_defs = example_host_def example_world_def example_canvas_def example_sources_def
  example_shaders_def example_inputs_def

lemmas setup_defs = doShade_setup_def GlWrapper_new_def GlWrapper_check_def canvas_getContext_def
  WebGl1Strategy_new_def WebGl2Strategy_new_def getExtension_def gl_getExtension_def
  initProgram_def loadShader_def wrapProgram_def DoubleBuffer_new_def ProgramWrapper_new_def
  BufferedProgramWrapper_new_def gl_create_def gl_def emit_def Object_assign_def shader_uniforms_def
  sources_get_def gl_getUniformLocation_def defaultUniforms_def VERTEX_SHADER_def VERTEX_ATTRIBUTE_def
  Let_def key_defs

lemma example_setup:
  "\<exists>d w1. doShade_setup example_host example_canvas example_sources example_shaders example_world = (Inr d, w1)
     \<and> map uniforms (programs d) = 
       [[(''T'', Loc 3 ''T'', Setter_T), (''F'', Loc 3 ''F'', Setter_F), (''X'', Loc 3 ''X'', UserSetter 7)],
        [(''T'', Loc 7 ''T'', Setter_T), (''F'', Loc 7 ''F'', Setter_F), (''X'', Loc 7 ''X'', UserSetter 7)]]"
  by (simp add: example_defs setup_defs)

subsection \<open>The shared table of setters\<close>

lemma map_of_fold_update:
  "map_of (fold (\<lambda>(name, s). AList.update name s) props t) = map_of t ++ map_of (rev props)"
proof (induction props arbitrary: t)
  case Nil
  show ?case by simp
next
  case (Cons p props)
  obtain k v where p: "p = (k, v)" by (cases p)
  show ?case
    by (rule ext) (simp add: p Cons.IH AList.update_conv' map_add_def split: option.splits)
qed

lemma keys_fold_update:
  "fst ` set (fold (\<lambda>(name, s). AList.update name s) props t) = fst ` set t \<union> fst ` set props"
proof (induction props arbitrary: t)
  case Nil
  show ?case by simp
next
  case (Cons p props)
  obtain k v where p: "p = (k, v)" by (cases p)
  show ?case
    by (auto simp: p Cons.IH AList.dom_update)
qed

lemma Object_assign_user:
  "map_of (Object_assign t (shader_uniforms shaders ident)) = map_of t ++ map_of (rev (user_table shaders ident))"
  "fst ` set (Object_assign t (shader_uniforms shaders ident)) = fst ` set t \<union> fst ` set (user_table shaders ident)"
  by (simp_all add: Object_assign_def user_table_def map_of_fold_update keys_fold_update split: option.splits)

lemma merged_uniforms_snoc:
  "merged_uniforms shaders (ids @ [ident]) t
     = Object_assign (merged_uniforms shaders ids t) (shader_uniforms shaders ident)"
  by (simp add: merged_uniforms_def)

lemma merged_uniforms_map_of:
  "map_of (merged_uniforms shaders ids t)
     = foldl (++) (map_of t) (map (\<lambda>ident. map_of (rev (user_table shaders ident))) ids)"
  by (induction ids rule: rev_induct) (simp_all add: merged_uniforms_snoc Object_assign_user, simp add: merged_uniforms_def)

lemma merged_uniforms_keys:
  "fst ` set (merged_uniforms shaders ids t)
     = fst ` set t \<union> (\<Union>ident \<in> set ids. fst ` set (user_table shaders ident))"
  by (induction ids rule: rev_induct) (auto simp: merged_uniforms_snoc Object_assign_user merged_uniforms_def)


lemma distinct_fold_update:
  "distinct (map fst t) \<Longrightarrow> distinct (map fst (fold (\<lambda>(name, s). AList.update name s) props t))"
  by (induction props arbitrary: t) (auto simp: AList.distinct_update)

lemma distinct_merged:
  "distinct (map fst t) \<Longrightarrow> distinct (map fst (merged_uniforms shaders ids t))"
  unfolding merged_uniforms_def
  by (induction ids arbitrary: t)
     (auto simp: Object_assign_def distinct_fold_update split: option.splits)

lemma example_setup_passes:
  "\<exists>d w1. doShade_setup example_host example_canvas example_sources example_shaders example_world = (Inr d, w1)
     \<and> uniforms (programs d ! 1)
        = [(''T'', Loc 7 ''T'', Setter_T), (''F'', Loc 7 ''F'', Setter_F), (''X'', Loc 7 ''X'', UserSetter 7)]
     \<and> program (programs d ! 1) = 7"
  by (simp add: example_defs setup_defs)

subsection \<open>Feedback buffers\<close>

lemma swapTextures_funpow:
  "(swapTextures ^^ n) b = (if even n then b else swapTextures b)"
  by (induction n) (simp_all add: swapTextures_def)

lemma DoubleBuffer_init_result:
  "fst (DoubleBuffer_init b wd ht w) = b\<lparr>inTexture := Some (fresh w), outTexture := Some (Suc (fresh w))\<rparr>"
  by (cases "buffer_strategy b")
     (simp_all add: DoubleBuffer_init_def createTexture_def deleteTextures_def gl_create_def Let_def)

lemma DoubleBuffer_init_storage:
  "\<exists>fmt. tex_image (snd (DoubleBuffer_init b wd ht w)) (fresh w) = Some (fmt, wd, ht)
       \<and> tex_image (snd (DoubleBuffer_init b wd ht w)) (Suc (fresh w)) = Some (fmt, wd, ht)"
  by (cases "buffer_strategy b"; cases "inTexture b"; cases "outTexture b")
     (simp_all add: DoubleBuffer_init_def createTexture_def deleteTextures_def gl_create_def Let_def
        gl_def emit_def)

lemma setup_builtins_named:
  assumes "doShade_setup h can sources shaders w = (Inr d, w1)"
  shows "\<forall>us \<in> set (map uniforms (programs d)). builtins_named us"
proof -
  from setup_driver [OF assms] have
    m: "fst (map_sourceIds h (glWrapper d) sources shaders (int (length sources) - 1) (Object_keys sources) 0
              defaultUniforms (snd (GlWrapper_new h GlError w))) = Inr (programs d)"
    by simp
  note P = map_sourceIds_passes [OF m]
  show ?thesis
  proof
    fix us assume "us \<in> set (map uniforms (programs d))"
    then obtain k where k: "k < length (programs d)" and us: "us = uniforms (programs d ! k)"
      by (auto simp: in_set_conv_nth)
    with P have "us = resolve_uniforms h (program (programs d ! k))
                        (merged_uniforms shaders (take (Suc k) (Object_keys sources)) defaultUniforms)"
      by simp
    then show "builtins_named us"
      by (simp add: builtins_named_resolve table_named_merged table_named_default)
  qed
qed

lemma doShade_uploads_T:
  assumes "doShade_setup h can sources shaders w = (Inr d, w1)"
  shows "uploads_T (trace (snd (doShade h can sources shaders inputs w)))
       = uploads_T (trace w)
         @ concat (map (\<lambda>i. map (\<lambda>l. (l, now i / 1000)) (setter_locations Setter_T (programs d))) inputs)"
proof -
  have "uploads_T (trace w1) = uploads_T (trace w)"
    using setup_proj(3) [of h can sources shaders w] assms by simp
  then show ?thesis
    using run_uploads_T [OF setup_builtins_named [OF assms], of inputs w1] assms
    by (simp add: doShade_def case_prod_beta)
qed

lemma example_uploads_T:
  "uploads_T (trace (snd (doShade example_host example_canvas example_sources example_shaders
                                  example_inputs example_world)))
        = [(Loc 3 ''T'', 5), (Loc 7 ''T'', 5), (Loc 3 ''T'', 627 / 125), (Loc 7 ''T'', 627 / 125),
           (Loc 3 ''T'', 629 / 125), (Loc 7 ''T'', 629 / 125)]"
proof -
  from example_setup obtain d w1 where
    s: "doShade_setup example_host example_canvas example_sources example_shaders example_world = (Inr d, w1)"
    and u: "map uniforms (programs d) = 
       [[(''T'', Loc 3 ''T'', Setter_T), (''F'', Loc 3 ''F'', Setter_F), (''X'', Loc 3 ''X'', UserSetter 7)],
        [(''T'', Loc 7 ''T'', Setter_T), (''F'', Loc 7 ''F'', Setter_F), (''X'', Loc 7 ''X'', UserSetter 7)]]"
    by (elim exE conjE)
  have "uploads_T (trace example_world) = []" by (simp add: example_world_def)
  with doShade_uploads_T [OF s, of example_inputs] u show ?thesis
    by (simp add: setter_locations_def example_inputs_def)
qed

subsection \<open>Failures of setup\<close>

lemma GlWrapper_new_failure:
  "\<not> getContext_webgl2 h \<Longrightarrow> \<not> getContext_webgl h \<Longrightarrow>
     GlWrapper_new h f w = (Inl (f (''webgl context not supported on supplied canvas element: '' @ canvas_toString)), w)"
  "getContext_webgl2 h \<Longrightarrow> \<not> supported_extension h ''EXT_color_buffer_float'' \<Longrightarrow>
     GlWrapper_new h f w = (Inl (f ''EXT_color_buffer_float extension is not supported''), w)"
  "\<not> getContext_webgl2 h \<Longrightarrow> getContext_webgl h \<Longrightarrow> \<not> supported_extension h ''OES_texture_half_float'' \<Longrightarrow>
     GlWrapper_new h f w = (Inl (f ''OES_texture_half_float extension is not supported''), w)"
  "\<not> getContext_webgl2 h \<Longrightarrow> getContext_webgl h \<Longrightarrow> supported_extension h ''OES_texture_half_float'' \<Longrightarrow>
   \<not> supported_extension h ''OES_texture_half_float_linear'' \<Longrightarrow>
     GlWrapper_new h f w = (Inl (f ''OES_texture_half_float_linear extension is not supported''), w)"
  by (simp_all add: GlWrapper_new_def GlWrapper_check_def canvas_getContext_def
        WebGl1Strategy_new_def WebGl2Strategy_new_def getExtension_def gl_getExtension_def)

lemma doShade_GlWrapper_failure:
  "GlWrapper_new h GlError w = (Inl e, w0) \<Longrightarrow> doShade h can sources shaders inputs w = (Inl e, w0)"
  by (simp add: doShade_def doShade_setup_def)

lemma initProgram_failure:
  assumes "\<not> compile_status h VERTEX_SHADER_T vs \<or> \<not> compile_status h FRAGMENT_SHADER_T fs"
  shows "\<exists>w1. initProgram h g ident vs fs w
            = (Inl (glErrorFactory g (''Cannot compile shader - '' @ ident @ '': ''
                  @ String_js (if \<not> compile_status h VERTEX_SHADER_T vs
                               then shader_info_log h VERTEX_SHADER_T vs
                               else shader_info_log h FRAGMENT_SHADER_T fs))), w1)
          \<and> links (trace w1) = links (trace w) \<and> draws (trace w1) = draws (trace w)"
proof -
  have "fst (initProgram h g ident vs fs w)
          = Inl (glErrorFactory g (''Cannot compile shader - '' @ ident @ '': ''
                  @ String_js (if \<not> compile_status h VERTEX_SHADER_T vs
                               then shader_info_log h VERTEX_SHADER_T vs
                               else shader_info_log h FRAGMENT_SHADER_T fs)))"
    using assms by (auto simp: initProgram_result)
  moreover have "links (trace (snd (initProgram h g ident vs fs w))) = links (trace w)"
    using assms by (auto simp: initProgram_links)
  moreover have "draws (trace (snd (initProgram h g ident vs fs w))) = draws (trace w)"
    by (rule initProgram_proj)
  ultimately show ?thesis
    by (intro exI [of _ "snd (initProgram h g ident vs fs w)"]) (simp add: prod_eq_iff)
qed

lemma doShade_setup_Inl:
  "fst (doShade_setup h can sources shaders w) = Inl e \<Longrightarrow>
     doShade h can sources shaders inputs w = (Inl e, snd (doShade_setup h can sources shaders w))"
  by (cases "doShade_setup h can sources shaders w") (simp add: doShade_def)

lemma doShade_compile_failure:
  assumes "ident \<in> set (map fst sources)" and "\<not> compiles h sources ident"
  shows "\<exists>m w2. doShade h can sources shaders inputs w = (Inl (GlError m), w2)
           \<and> draws (trace w2) = draws (trace w)"
proof -
  have i: "ident \<in> set (Object_keys sources)" using assms(1) by simp
  have "\<exists>e. fst (doShade_setup h can sources shaders w) = Inl e"
    using GlWrapper_new_cases [of h GlError w] map_sourceIds_fails [OF i assms(2)]
    by (auto simp: doShade_setup_unfold Let_def split: sum.splits) (metis sum.distinct(1))
  then obtain e where e: "fst (doShade_setup h can sources shaders w) = Inl e" ..
  from setup_error [OF e] obtain m where "e = GlError m" ..
  with doShade_setup_Inl [OF e] setup_proj(1) [of h can sources shaders w] show ?thesis
    by simp
qed

lemma map_sourceIds_first_failure:
  assumes "\<forall>i \<in> set pre. compiles h sources i" and "\<not> compiles h sources ident"
  shows "fst (map_sourceIds h g sources shaders ix (pre @ ident # post) index table w)
           = Inl (glErrorFactory g (''Cannot compile shader - '' @ ident @ '': ''
                  @ String_js (if \<not> compile_status h VERTEX_SHADER_T VERTEX_SHADER
                               then shader_info_log h VERTEX_SHADER_T VERTEX_SHADER
                               else shader_info_log h FRAGMENT_SHADER_T (sources_get sources ident))))
         \<and> length (links (trace (snd (map_sourceIds h g sources shaders ix (pre @ ident # post) index table w))))
           = length (links (trace w)) + length pre"
  using assms
proof (induction pre arbitrary: index table w)
  case Nil
  then show ?case
    unfolding append_Nil map_sourceIds_Cons
    by (auto simp: Let_def initProgram_result initProgram_links compiles_def)
next
  case (Cons i pre)
  then have c: "compile_status h VERTEX_SHADER_T VERTEX_SHADER"
      "compile_status h FRAGMENT_SHADER_T (sources_get sources i)"
    and rest: "\<forall>i \<in> set pre. compiles h sources i"
    by (simp_all add: compiles_def)
  note IH = Cons.IH [OF rest Cons.prems(2)]
  show ?case
    unfolding append_Cons map_sourceIds_Cons
    using c by (simp add: Let_def initProgram_result IH initProgram_links wrapProgram_proj)
qed

lemma doShade_first_failure:
  assumes "GlWrapper_new h GlError w = (Inr g0, w0)"
    and "Object_keys sources = pre @ ident # post"
    and "\<forall>i \<in> set pre. compiles h sources i" and "\<not> compiles h sources ident"
  shows "\<exists>w2. doShade h can sources shaders inputs w
           = (Inl (GlError (''Cannot compile shader - '' @ ident @ '': ''
                  @ String_js (if \<not> compile_status h VERTEX_SHADER_T VERTEX_SHADER
                               then shader_info_log h VERTEX_SHADER_T VERTEX_SHADER
                               else shader_info_log h FRAGMENT_SHADER_T (sources_get sources ident)))), w2)
         \<and> length (links (trace w2)) = length (links (trace w)) + length pre"
proof -
  from GlWrapper_new_cases [of h GlError w] assms(1)
  have g: "glErrorFactory g0 = GlError" and l: "links (trace w0) = links (trace w)"
    by auto
  note F = map_sourceIds_first_failure [OF assms(3,4), of g0 shaders "int (length sources) - 1" post 0
             defaultUniforms w0]
  have e: "fst (doShade_setup h can sources shaders w)
      = Inl (GlError (''Cannot compile shader - '' @ ident @ '': ''
                  @ String_js (if \<not> compile_status h VERTEX_SHADER_T VERTEX_SHADER
                               then shader_info_log h VERTEX_SHADER_T VERTEX_SHADER
                               else shader_info_log h FRAGMENT_SHADER_T (sources_get sources ident))))"
    and n: "length (links (trace (snd (doShade_setup h can sources shaders w))))
              = length (links (trace w)) + length pre"
    using F assms(1,2) g l by (simp_all add: doShade_setup_unfold Let_def)
  from doShade_setup_Inl [OF e] n show ?thesis by simp
qed

lemma example_GlWrapper:
  "\<exists>g0 w0. GlWrapper_new host_bad_fragment GlError example_world = (Inr g0, w0)"
  by (simp add: host_bad_fragment_def example_defs setup_defs)

subsection \<open>Successful setup\<close>




subsection \<open>The link status\<close>

lemma resolve_uniforms_link_status:
  "resolve_uniforms (h\<lparr>link_status := ls\<rparr>) prog table = resolve_uniforms h prog table"
  by (induction table) (auto simp: gl_getUniformLocation_def)

lemma map_sourceIds_link_status:
  "map_sourceIds (h\<lparr>link_status := ls\<rparr>) g sources shaders ix ids index table w
     = map_sourceIds h g sources shaders ix ids index table w"
proof (induction ids arbitrary: index table w)
  case Nil
  show ?case by simp
next
  case (Cons ident ids)
  have l: "loadShader (h\<lparr>link_status := ls\<rparr>) g ident ty src w = loadShader h g ident ty src w"
    for ty src w
    by (cases "compile_status h ty src") (simp_all add: loadShader_def gl_create_def Let_def)
  have i: "initProgram (h\<lparr>link_status := ls\<rparr>) g ident vs fs w = initProgram h g ident vs fs w" for vs fs w
    by (simp add: initProgram_def l split: prod.splits sum.splits)
  have p: "wrapProgram (h\<lparr>link_status := ls\<rparr>) g ident prog va t b w = wrapProgram h g ident prog va t b w"
    for prog va t b w
    by (simp add: wrapProgram_def ProgramWrapper_new_def BufferedProgramWrapper_new_def
          resolve_uniforms_link_status)
  show ?case
    unfolding map_sourceIds_Cons by (simp add: i p Cons.IH Let_def split: sum.splits)
qed

lemma link_status_is_never_read:
  "doShade (h\<lparr>link_status := ls\<rparr>) can sources shaders inputs w = doShade h can sources shaders inputs w"
proof -
  have "GlWrapper_new (h\<lparr>link_status := ls\<rparr>) GlError w = GlWrapper_new h GlError w"
    by (cases "getContext_webgl2 h"; cases "getContext_webgl h")
       (simp_all add: GlWrapper_new_def GlWrapper_check_def canvas_getContext_def
          WebGl1Strategy_new_def WebGl2Strategy_new_def getExtension_def gl_getExtension_def)
  then have "doShade_setup (h\<lparr>link_status := ls\<rparr>) can sources shaders w
               = doShade_setup h can sources shaders w"
    by (simp add: doShade_setup_unfold map_sourceIds_link_status Let_def split: sum.splits)
  then show ?thesis by (simp add: doShade_def)
qed

section \<open>Properties of the engine\<close>

subsection \<open>The order of the steps of one frame\<close>

text \<open>
  C1.  For every driver state, whatever its list of passes, one call of \<^verbatim>\<open>animate\<close> adds
  these steps to the trace, in this order: if the canvas is resized, the viewport command, the
  reset of the frame counter to 0 and \<^verbatim>\<open>init\<close> on every pass in list order; then, for every
  pass in list order, the call of \<^verbatim>\<open>draw\<close> and its return; then the increment of the frame
  counter; then \<^verbatim>\<open>afterFrame\<close> on every pass in list order.  So every \<^verbatim>\<open>init\<close> comes
  before every draw, and every \<^verbatim>\<open>afterFrame\<close> after the return of the last draw.
\<close>

theorem animate_order:
  "driver_steps (trace (snd (animate t (d, w))))
     = driver_steps (trace w)
       @ (if isResized (canvas d)
          then [Gl (Viewport 0 0 (clientWidth (canvas d)) (clientHeight (canvas d))), SetFrame 0]
               @ map (\<lambda>i. Init i (clientWidth (canvas d)) (clientHeight (canvas d)))
                   (map id_w (programs d))
          else [])
       @ concat (map (\<lambda>i. [Draw i, DrawDone i]) (map id_w (programs d)))
       @ [SetFrame ((if isResized (canvas d) then 0 else frame d) + 1)]
       @ map AfterFrame (map id_w (programs d))"
proof (cases "isResized (canvas d)")
  case True
  then show ?thesis
    by (simp add: animate_def Let_def case_prod_beta updateSize_def updateViewportSize_def
          forEach_afterFrame_trace fold_draw_steps forEach_init_steps forEach_map init_fields
          steps_AfterFrame is_driver_step_def isResized_def)
next
  case False
  then show ?thesis
    by (simp add: animate_def Let_def case_prod_beta
          forEach_afterFrame_trace fold_draw_steps steps_AfterFrame is_driver_step_def isResized_def)
qed

theorem animate_order_witness:
  "isResized (canvas example_driver)
   \<and> driver_steps (trace (snd (animate 5000 (example_driver, example_world))))
       = [Gl (Viewport 0 0 640 480), SetFrame 0, Init ''a'' 640 480, Init ''b'' 640 480,
          Draw ''a'', DrawDone ''a'', Draw ''b'', DrawDone ''b'',
          SetFrame 1, AfterFrame ''a'', AfterFrame ''b'']
   \<and> \<not> isResized (canvas (example_driver\<lparr>canvas := updateSize (canvas example_driver)\<rparr>))
   \<and> driver_steps (trace (snd (animate 5016
          (example_driver\<lparr>canvas := updateSize (canvas example_driver)\<rparr>, example_world))))
       = [Draw ''a'', DrawDone ''a'', Draw ''b'', DrawDone ''b'',
          SetFrame 6, AfterFrame ''a'', AfterFrame ''b'']"
  using animate_order [of 5000 example_driver example_world]
        animate_order [of 5016 "example_driver\<lparr>canvas := updateSize (canvas example_driver)\<rparr>"
                          example_world]
  by (simp add: example_driver_def example_world_def isResized_def updateSize_def)

subsection \<open>The frame counter seen by the shaders\<close>

text \<open>
  C2.  In every run whose setup succeeds, every frame uploads, to each location at which a pass
  calls the built-in setter \<^verbatim>\<open>F\<close>, the number of frames since the last resize: 0 in the
  first frame and in every frame that finds the canvas resized, and otherwise one more than in
  the frame before.
\<close>

theorem F_is_frames_since_resize:
  assumes "doShade_setup h can sources shaders w = (Inr d, w1)"
  shows "uploads_F (trace (snd (doShade h can sources shaders inputs w)))
       = uploads_F (trace w)
         @ concat (map (\<lambda>v. map (\<lambda>l. (l, v)) (setter_locations Setter_F (programs d)))
                       (spec_frame_counter (0, 0) 0 inputs))"
proof -
  have "uploads_F (trace w1) = uploads_F (trace w)"
    using setup_proj(2) [of h can sources shaders w] assms by simp
  moreover have "frame d = 0" "width (canvas d) = 0" "height (canvas d) = 0"
    using setup_driver [OF assms] by simp_all
  ultimately show ?thesis
    using run_uploads_F [of inputs d w1] assms
    by (simp add: doShade_def case_prod_beta)
qed

theorem F_is_frames_since_resize_witness:
  "\<exists>d w1. doShade_setup example_host example_canvas example_sources example_shaders example_world = (Inr d, w1)
     \<and> uploads_F (trace (snd (doShade example_host example_canvas example_sources example_shaders
                                  example_inputs example_world)))
        = [(Loc 3 ''F'', 0), (Loc 7 ''F'', 0), (Loc 3 ''F'', 1), (Loc 7 ''F'', 1),
           (Loc 3 ''F'', 0), (Loc 7 ''F'', 0)]"
proof -
  from example_setup obtain d w1 where
    s: "doShade_setup example_host example_canvas example_sources example_shaders example_world = (Inr d, w1)"
    and u: "map uniforms (programs d) = 
       [[(''T'', Loc 3 ''T'', Setter_T), (''F'', Loc 3 ''F'', Setter_F), (''X'', Loc 3 ''X'', UserSetter 7)],
        [(''T'', Loc 7 ''T'', Setter_T), (''F'', Loc 7 ''F'', Setter_F), (''X'', Loc 7 ''X'', UserSetter 7)]]"
    by (elim exE conjE)
  have "uploads_F (trace example_world) = []" by (simp add: example_world_def)
  with F_is_frames_since_resize [OF s, of example_inputs] u s show ?thesis
    by (simp add: setter_locations_def example_inputs_def)
qed

subsection \<open>Swapping the textures of a feedback buffer\<close>

text \<open>
  C3.  Two calls of \<^verbatim>\<open>swapTextures\<close> give the buffer back as it was; one call exchanges the
  read texture and the write texture and leaves the framebuffer object and the strategy alone.
\<close>

theorem swapTextures_involution:
  "swapTextures (swapTextures b) = b
   \<and> inTexture (swapTextures b) = outTexture b
   \<and> outTexture (swapTextures b) = inTexture b
   \<and> fbo (swapTextures b) = fbo b
   \<and> buffer_strategy (swapTextures b) = buffer_strategy b"
  by (simp add: swapTextures_def)

subsection \<open>The two textures of a feedback buffer\<close>

text \<open>
  C4.  For every width and height, after \<^verbatim>\<open>init\<close> of a feedback buffer and any number
  \<open>n\<close> of swaps, the read texture and the write texture are two different textures, neither of
  them \<^verbatim>\<open>null\<close>; they are the two textures this \<^verbatim>\<open>init\<close> created, and each was given
  storage of exactly that width and height.
\<close>

theorem DoubleBuffer_init_two_textures:
  "\<exists>t_in t_out fmt.
      inTexture ((swapTextures ^^ n) (fst (DoubleBuffer_init b wd ht w))) = Some t_in
    \<and> outTexture ((swapTextures ^^ n) (fst (DoubleBuffer_init b wd ht w))) = Some t_out
    \<and> t_in \<noteq> t_out
    \<and> {t_in, t_out} = {fresh w, Suc (fresh w)}
    \<and> tex_image (snd (DoubleBuffer_init b wd ht w)) t_in = Some (fmt, wd, ht)
    \<and> tex_image (snd (DoubleBuffer_init b wd ht w)) t_out = Some (fmt, wd, ht)"
proof -
  from DoubleBuffer_init_storage [of b wd ht w] obtain fmt where
    s: "tex_image (snd (DoubleBuffer_init b wd ht w)) (fresh w) = Some (fmt, wd, ht)"
       "tex_image (snd (DoubleBuffer_init b wd ht w)) (Suc (fresh w)) = Some (fmt, wd, ht)"
    by (elim exE conjE)
  show ?thesis
  proof (cases "even n")
    case True
    with s show ?thesis
      by (intro exI [of _ "fresh w"] exI [of _ "Suc (fresh w)"] exI [of _ fmt])
         (simp add: swapTextures_funpow DoubleBuffer_init_result)
  next
    case False
    with s show ?thesis
      by (intro exI [of _ "Suc (fresh w)"] exI [of _ "fresh w"] exI [of _ fmt])
         (auto simp: swapTextures_funpow DoubleBuffer_init_result swapTextures_def)
  qed
qed

subsection \<open>Which passes are buffered\<close>




subsection \<open>A missing capability\<close>

text \<open>
  C6, as the code has it.  When the canvas gives neither a WebGL 2 nor a WebGL 1 context, or the
  context lacks an extension its strategy asks for, \<^verbatim>\<open>doShade\<close> throws before it has sent
  a single command to the context (the world is returned as it was found, so nothing is drawn),
  and the message names what is missing.  The error is a \<^verbatim>\<open>shaderWebBackground.GlError\<close>,
  built by the error factory that \<^verbatim>\<open>doShade\<close> hands to the wrapper.
\<close>

theorem missing_capability_raises_GlError:
  "(\<not> getContext_webgl2 h \<and> \<not> getContext_webgl h \<longrightarrow>
      doShade h can sources shaders inputs w
        = (Inl (GlError (''webgl context not supported on supplied canvas element: '' @ canvas_toString)), w))
   \<and> (getContext_webgl2 h \<and> \<not> supported_extension h ''EXT_color_buffer_float'' \<longrightarrow>
      doShade h can sources shaders inputs w
        = (Inl (GlError ''EXT_color_buffer_float extension is not supported''), w))
   \<and> (\<not> getContext_webgl2 h \<and> getContext_webgl h \<and> \<not> supported_extension h ''OES_texture_half_float'' \<longrightarrow>
      doShade h can sources shaders inputs w
        = (Inl (GlError ''OES_texture_half_float extension is not supported''), w))
   \<and> (\<not> getContext_webgl2 h \<and> getContext_webgl h \<and> supported_extension h ''OES_texture_half_float''
        \<and> \<not> supported_extension h ''OES_texture_half_float_linear'' \<longrightarrow>
      doShade h can sources shaders inputs w
        = (Inl (GlError ''OES_texture_half_float_linear extension is not supported''), w))"
proof (intro conjI impI)
  assume "\<not> getContext_webgl2 h \<and> \<not> getContext_webgl h"
  then show "doShade h can sources shaders inputs w
        = (Inl (GlError (''webgl context not supported on supplied canvas element: '' @ canvas_toString)), w)"
    by (intro doShade_GlWrapper_failure GlWrapper_new_failure(1)) simp_all
next
  assume "getContext_webgl2 h \<and> \<not> supported_extension h ''EXT_color_buffer_float''"
  then show "doShade h can sources shaders inputs w
        = (Inl (GlError ''EXT_color_buffer_float extension is not supported''), w)"
    by (intro doShade_GlWrapper_failure GlWrapper_new_failure(2)) simp_all
next
  assume "\<not> getContext_webgl2 h \<and> getContext_webgl h \<and> \<not> supported_extension h ''OES_texture_half_float''"
  then show "doShade h can sources shaders inputs w
        = (Inl (GlError ''OES_texture_half_float extension is not supported''), w)"
    by (intro doShade_GlWrapper_failure GlWrapper_new_failure(3)) simp_all
next
  assume "\<not> getContext_webgl2 h \<and> getContext_webgl h \<and> supported_extension h ''OES_texture_half_float''
        \<and> \<not> supported_extension h ''OES_texture_half_float_linear''"
  then show "doShade h can sources shaders inputs w
        = (Inl (GlError ''OES_texture_half_float_linear extension is not supported''), w)"
    by (intro doShade_GlWrapper_failure GlWrapper_new_failure(4)) simp_all
qed

theorem missing_capability_raises_GlError_witness:
  "doShade host_no_context example_canvas example_sources example_shaders example_inputs example_world
     = (Inl (GlError ''webgl context not supported on supplied canvas element: [object HTMLCanvasElement]''),
        example_world)
   \<and> doShade host_webgl2_without_float example_canvas example_sources example_shaders example_inputs example_world
     = (Inl (GlError ''EXT_color_buffer_float extension is not supported''), example_world)
   \<and> doShade host_webgl1_without_half_float example_canvas example_sources example_shaders example_inputs example_world
     = (Inl (GlError ''OES_texture_half_float extension is not supported''), example_world)
   \<and> doShade host_webgl1_without_linear example_canvas example_sources example_shaders example_inputs example_world
     = (Inl (GlError ''OES_texture_half_float_linear extension is not supported''), example_world)"
  using missing_capability_raises_GlError [of host_no_context example_canvas example_sources example_shaders example_inputs example_world]
        missing_capability_raises_GlError [of host_webgl2_without_float example_canvas example_sources example_shaders example_inputs example_world]
        missing_capability_raises_GlError [of host_webgl1_without_half_float example_canvas example_sources example_shaders example_inputs example_world]
        missing_capability_raises_GlError [of host_webgl1_without_linear example_canvas example_sources example_shaders example_inputs example_world]
  by (simp add: host_no_context_def host_webgl2_without_float_def host_webgl1_without_half_float_def
        host_webgl1_without_linear_def example_host_def canvas_toString_def)

text \<open>
  C6, as it is stated, asks for a configuration error.  On a host without any context the run
  does not end in a \<^verbatim>\<open>ConfigError\<close>.
\<close>

theorem no_context_is_not_a_ConfigError_counterexample:
  "\<not> getContext_webgl2 host_no_context \<and> \<not> getContext_webgl host_no_context
   \<and> \<not> raises_ConfigError (doShade host_no_context example_canvas example_sources example_shaders
                               example_inputs example_world)"
  by (simp add: raises_ConfigError_def doShade_GlWrapper_failure [OF GlWrapper_new_failure(1)]
        host_no_context_def example_host_def)

subsection \<open>A shader that does not compile\<close>

text \<open>
  C7.  When the vertex or the fragment shader of a pass does not compile, \<^verbatim>\<open>initProgram\<close>
  for that pass throws what the error factory builds from the message
  \<^verbatim>\<open>Cannot compile shader - <id>: <info log>\<close>, with the info log of the shader that failed,
  and it has linked nothing and drawn nothing.  If the pass is one of the sources, the whole
  run ends in a \<^verbatim>\<open>GlError\<close> and never draws, however many frames are asked for.  If it is
  the first pass, in the order of \<^verbatim>\<open>Object.keys\<close>, that does not compile, the error of the run
  is the error of this pass, and exactly the passes before it were linked.
\<close>

theorem compile_failure_raises_before_link_and_draw:
  assumes "\<not> compile_status h VERTEX_SHADER_T vs \<or> \<not> compile_status h FRAGMENT_SHADER_T fs"
  shows "(\<exists>w1. initProgram h g ident vs fs w
            = (Inl (glErrorFactory g (''Cannot compile shader - '' @ ident @ '': ''
                  @ String_js (if \<not> compile_status h VERTEX_SHADER_T vs
                               then shader_info_log h VERTEX_SHADER_T vs
                               else shader_info_log h FRAGMENT_SHADER_T fs))), w1)
          \<and> links (trace w1) = links (trace w) \<and> draws (trace w1) = draws (trace w))
   \<and> (vs = VERTEX_SHADER \<and> fs = sources_get sources ident \<and> ident \<in> set (map fst sources) \<longrightarrow>
        (\<exists>m w2. doShade h can sources shaders inputs w = (Inl (GlError m), w2)
           \<and> draws (trace w2) = draws (trace w)))
   \<and> (vs = VERTEX_SHADER \<and> fs = sources_get sources ident
        \<and> (\<exists>g0 w0. GlWrapper_new h GlError w = (Inr g0, w0))
        \<and> Object_keys sources = pre @ ident # post \<and> (\<forall>i \<in> set pre. compiles h sources i) \<longrightarrow>
        (\<exists>w2. doShade h can sources shaders inputs w
           = (Inl (GlError (''Cannot compile shader - '' @ ident @ '': ''
                  @ String_js (if \<not> compile_status h VERTEX_SHADER_T vs
                               then shader_info_log h VERTEX_SHADER_T vs
                               else shader_info_log h FRAGMENT_SHADER_T fs))), w2)
         \<and> length (links (trace w2)) = length (links (trace w)) + length pre))"
proof (intro conjI impI)
  show "\<exists>w1. initProgram h g ident vs fs w
            = (Inl (glErrorFactory g (''Cannot compile shader - '' @ ident @ '': ''
                  @ String_js (if \<not> compile_status h VERTEX_SHADER_T vs
                               then shader_info_log h VERTEX_SHADER_T vs
                               else shader_info_log h FRAGMENT_SHADER_T fs))), w1)
          \<and> links (trace w1) = links (trace w) \<and> draws (trace w1) = draws (trace w)"
    using assms by (rule initProgram_failure)
next
  assume a: "vs = VERTEX_SHADER \<and> fs = sources_get sources ident \<and> ident \<in> set (map fst sources)"
  with assms have "\<not> compiles h sources ident" by (simp add: compiles_def)
  with a show "\<exists>m w2. doShade h can sources shaders inputs w = (Inl (GlError m), w2)
           \<and> draws (trace w2) = draws (trace w)"
    by (intro doShade_compile_failure) simp_all
next
  assume a: "vs = VERTEX_SHADER \<and> fs = sources_get sources ident
        \<and> (\<exists>g0 w0. GlWrapper_new h GlError w = (Inr g0, w0))
        \<and> Object_keys sources = pre @ ident # post \<and> (\<forall>i \<in> set pre. compiles h sources i)"
  then obtain g0 w0 where g: "GlWrapper_new h GlError w = (Inr g0, w0)" by blast
  from a assms have n: "\<not> compiles h sources ident" by (simp add: compiles_def)
  from a have v: "vs = VERTEX_SHADER" "fs = sources_get sources ident"
    and p: "Object_keys sources = pre @ ident # post" "\<forall>i \<in> set pre. compiles h sources i"
    by simp_all
  show "\<exists>w2. doShade h can sources shaders inputs w
           = (Inl (GlError (''Cannot compile shader - '' @ ident @ '': ''
                  @ String_js (if \<not> compile_status h VERTEX_SHADER_T vs
                               then shader_info_log h VERTEX_SHADER_T vs
                               else shader_info_log h FRAGMENT_SHADER_T fs))), w2)
         \<and> length (links (trace w2)) = length (links (trace w)) + length pre"
    unfolding v by (rule doShade_first_failure [OF g p n])
qed

theorem compile_failure_raises_before_link_and_draw_witness:
  "\<not> compile_status host_bad_fragment FRAGMENT_SHADER_T (sources_get example_sources ''b'')
   \<and> fst (initProgram host_bad_fragment (glWrapper example_driver) ''b'' VERTEX_SHADER
            (sources_get example_sources ''b'') example_world)
       = Inl (GlError ''Cannot compile shader - b: ERROR: 0:1'')
   \<and> fst (doShade host_bad_fragment example_canvas example_sources example_shaders example_inputs
            example_world)
       = Inl (GlError ''Cannot compile shader - b: ERROR: 0:1'')
   \<and> draws (trace (snd (doShade host_bad_fragment example_canvas example_sources example_shaders
                            example_inputs example_world))) = []
   \<and> length (links (trace (snd (doShade host_bad_fragment example_canvas example_sources
                                    example_shaders example_inputs example_world)))) = 1"
proof -
  have bad: "\<not> compile_status host_bad_fragment VERTEX_SHADER_T VERTEX_SHADER
             \<or> \<not> compile_status host_bad_fragment FRAGMENT_SHADER_T (sources_get example_sources ''b'')"
    by (simp add: host_bad_fragment_def example_host_def example_sources_def sources_get_def)
  have ids: "Object_keys example_sources = [''a''] @ ''b'' # []"
    by (simp add: example_sources_def key_defs)
  have pre: "\<forall>i \<in> set [''a'']. compiles host_bad_fragment example_sources i"
    by (simp add: compiles_def host_bad_fragment_def example_host_def example_sources_def
          sources_get_def VERTEX_SHADER_def)
  have mem: "''b'' \<in> set (map fst example_sources)"
    by (simp add: example_sources_def)
  have v: "compile_status host_bad_fragment VERTEX_SHADER_T VERTEX_SHADER"
    by (simp add: host_bad_fragment_def example_host_def VERTEX_SHADER_def)
  have lg: "shader_info_log host_bad_fragment FRAGMENT_SHADER_T (sources_get example_sources ''b'')
              = Some ''ERROR: 0:1''"
    by (simp add: host_bad_fragment_def example_host_def)
  have f: "glErrorFactory (glWrapper example_driver) = GlError"
    by (simp add: example_driver_def)
  have t: "links (trace example_world) = []" "draws (trace example_world) = []"
    by (simp_all add: example_world_def)
  note C = compile_failure_raises_before_link_and_draw [OF bad,
      of "glWrapper example_driver" "''b''" example_world example_sources example_canvas example_shaders
         example_inputs "[''a'']" "[]"]
  from C have "\<exists>w1. initProgram host_bad_fragment (glWrapper example_driver) ''b'' VERTEX_SHADER
            (sources_get example_sources ''b'') example_world
       = (Inl (GlError ''Cannot compile shader - b: ERROR: 0:1''), w1)"
    using v lg f by (auto simp: String_js_def)
  then have 1: "fst (initProgram host_bad_fragment (glWrapper example_driver) ''b'' VERTEX_SHADER
            (sources_get example_sources ''b'') example_world)
       = Inl (GlError ''Cannot compile shader - b: ERROR: 0:1'')"
    by auto
  from C mem t have "\<exists>m w2. doShade host_bad_fragment example_canvas example_sources example_shaders
        example_inputs example_world = (Inl (GlError m), w2) \<and> draws (trace w2) = []"
    by simp
  then have 2: "draws (trace (snd (doShade host_bad_fragment example_canvas example_sources example_shaders
                            example_inputs example_world))) = []"
    by auto
  from C example_GlWrapper ids pre t v lg
  have "\<exists>w2. doShade host_bad_fragment example_canvas example_sources example_shaders
        example_inputs example_world = (Inl (GlError ''Cannot compile shader - b: ERROR: 0:1''), w2)
      \<and> length (links (trace w2)) = 1"
    by (simp add: String_js_def)
  then have 3: "fst (doShade host_bad_fragment example_canvas example_sources example_shaders example_inputs
            example_world) = Inl (GlError ''Cannot compile shader - b: ERROR: 0:1'')"
    and 4: "length (links (trace (snd (doShade host_bad_fragment example_canvas example_sources
                                    example_shaders example_inputs example_world)))) = 1"
    by auto
  from bad v 1 2 3 4 show ?thesis by simp
qed

subsection \<open>A program that does not link\<close>

text \<open>
  C8.  The claim asks for an error during setup when a program fails to link.
  \<^verbatim>\<open>initProgram\<close> calls \<^verbatim>\<open>gl.linkProgram\<close> and returns the program without asking for the
  link status (\<open>link_status_is_never_read\<close>), unlike \<^verbatim>\<open>loadShader\<close>, which asks for the
  compile status and throws.  On a host where no program links, the run of one pass over one
  frame raises nothing, links program 3 and draws with it.
\<close>

theorem link_failure_is_not_detected:
  "\<not> link_status host_link_fails 3
   \<and> \<not> isl (fst (doShade host_link_fails example_canvas single_source Map.empty
                    [\<lparr>now = 5000, layoutWidth = 640, layoutHeight = 480\<rparr>] example_world))
   \<and> links (trace (snd (doShade host_link_fails example_canvas single_source Map.empty
                    [\<lparr>now = 5000, layoutWidth = 640, layoutHeight = 480\<rparr>] example_world)))
       = [Gl (LinkProgram 3)]
   \<and> draws (trace (snd (doShade host_link_fails example_canvas single_source Map.empty
                    [\<lparr>now = 5000, layoutWidth = 640, layoutHeight = 480\<rparr>] example_world)))
       = [Draw ''a'', Gl (DrawArrays TRIANGLE_STRIP 0 4)]"
  by (simp add: host_link_fails_def single_source_def example_defs setup_defs doShade_def
        tick_def animate_def isResized_def updateSize_def updateViewportSize_def
        init_def ProgramWrapper_init_def draw_def ProgramWrapper_draw_def drawQuad_def
        afterFrame_def is_link_def is_draw_def)

subsection \<open>The time seen by the shaders\<close>

text \<open>
  C9, as the code has it.  In every run whose setup succeeds, every frame uploads, to each
  location at which a pass calls the built-in setter \<^verbatim>\<open>T\<close>, the reading of
  \<^verbatim>\<open>performance.now()\<close> taken at the start of that frame, divided by 1000: seconds since
  the time origin of the host's clock.
\<close>

theorem T_is_the_clock_reading:
  assumes "doShade_setup h can sources shaders w = (Inr d, w1)"
  shows "uploads_T (trace (snd (doShade h can sources shaders inputs w)))
       = uploads_T (trace w)
         @ concat (map (\<lambda>i. map (\<lambda>l. (l, now i / 1000)) (setter_locations Setter_T (programs d))) inputs)"
  using assms by (rule doShade_uploads_T)

theorem T_is_the_clock_reading_witness:
  "\<exists>d w1. doShade_setup example_host example_canvas example_sources example_shaders example_world = (Inr d, w1)
     \<and> uploads_T (trace (snd (doShade example_host example_canvas example_sources example_shaders
                                  example_inputs example_world)))
        = [(Loc 3 ''T'', 5), (Loc 7 ''T'', 5), (Loc 3 ''T'', 627 / 125), (Loc 7 ''T'', 627 / 125),
           (Loc 3 ''T'', 629 / 125), (Loc 7 ''T'', 629 / 125)]"
proof -
  from example_setup obtain d w1 where
    s: "doShade_setup example_host example_canvas example_sources example_shaders example_world = (Inr d, w1)"
    and u: "map uniforms (programs d) = 
       [[(''T'', Loc 3 ''T'', Setter_T), (''F'', Loc 3 ''F'', Setter_F), (''X'', Loc 3 ''X'', UserSetter 7)],
        [(''T'', Loc 7 ''T'', Setter_T), (''F'', Loc 7 ''F'', Setter_F), (''X'', Loc 7 ''X'', UserSetter 7)]]"
    by (elim exE conjE)
  have "uploads_T (trace example_world) = []" by (simp add: example_world_def)
  with T_is_the_clock_reading [OF s, of example_inputs] u s show ?thesis
    by (simp add: setter_locations_def example_inputs_def)
qed

text \<open>
  C9, as it is stated, asks for the seconds since the driver started, 0 in the first frame.  In
  the concrete run the clock reads 5000 ms when the driver starts, and the first frame
  uploads 5.
\<close>

theorem T_is_not_zero_based_counterexample:
  "uploads_T (trace (snd (doShade example_host example_canvas example_sources example_shaders
                                  example_inputs example_world)))
     \<noteq> spec_uploads_T [Loc 3 ''T'', Loc 7 ''T''] example_inputs"
  unfolding example_uploads_T
  by (simp add: spec_uploads_T_def example_inputs_def)

subsection \<open>The table of uniform setters of a pass\<close>

text \<open>
  C10.  The table handed to the pass at index \<open>i\<close> (the passes are built in the order of
  \<^verbatim>\<open>Object.keys\<close>) is the one object \<^verbatim>\<open>defaultUniforms\<close> after the assignments of the
  passes 0 to \<open>i\<close>: the pass resolves its uniforms from that table; the
  names of the table are the four built-in names and every name of the tables of the passes 0 to
  \<open>i\<close>; under each name the table holds what the last of these assignments put there, or the
  built-in setter if none did; and the pass calls a setter at the location of a name exactly if
  the table holds it under that name and the program has a location for the name.
\<close>

theorem uniforms_accumulate_over_passes:
  assumes "doShade_setup h can sources shaders w = (Inr d, w1)" and "i < length sources"
  shows "uniforms (programs d ! i)
           = resolve_uniforms h (program (programs d ! i))
               (merged_uniforms shaders (take (Suc i) (Object_keys sources)) defaultUniforms)
     \<and> fst ` set (merged_uniforms shaders (take (Suc i) (Object_keys sources)) defaultUniforms)
           = {''R'', ''T'', ''F'', ''D''}
             \<union> (\<Union>ident \<in> set (take (Suc i) (Object_keys sources)). fst ` set (user_table shaders ident))
     \<and> map_of (merged_uniforms shaders (take (Suc i) (Object_keys sources)) defaultUniforms)
           = foldl (++) (map_of defaultUniforms)
               (map (\<lambda>ident. map_of (rev (user_table shaders ident))) (take (Suc i) (Object_keys sources)))
     \<and> (\<forall>name s. ((name, Loc (program (programs d ! i)) name, s) \<in> set (uniforms (programs d ! i)))
           = (map_of (merged_uniforms shaders (take (Suc i) (Object_keys sources)) defaultUniforms) name = Some s
              \<and> uniform_active h (program (programs d ! i)) name))"
proof -
  let ?t = "merged_uniforms shaders (take (Suc i) (Object_keys sources)) defaultUniforms"
  from setup_driver [OF assms(1)] have
    m: "fst (map_sourceIds h (glWrapper d) sources shaders (int (length sources) - 1) (Object_keys sources) 0
              defaultUniforms (snd (GlWrapper_new h GlError w))) = Inr (programs d)"
    by simp
  from map_sourceIds_passes [OF m] assms(2)
  have u: "uniforms (programs d ! i) = resolve_uniforms h (program (programs d ! i)) ?t"
    by simp
  have k: "fst ` set ?t = {''R'', ''T'', ''F'', ''D''}
             \<union> (\<Union>ident \<in> set (take (Suc i) (Object_keys sources)). fst ` set (user_table shaders ident))"
    by (simp add: merged_uniforms_keys) (simp add: defaultUniforms_def insert_commute)
  have dist: "distinct (map fst ?t)"
    by (rule distinct_merged) (simp add: defaultUniforms_def)
  have mem: "((name, Loc (program (programs d ! i)) name, s) \<in> set (uniforms (programs d ! i)))
           = (map_of ?t name = Some s \<and> uniform_active h (program (programs d ! i)) name)" for name s
    using dist by (auto simp: u set_resolve_uniforms)
  show ?thesis
    using u k mem by (simp only: merged_uniforms_map_of) simp
qed

theorem uniforms_accumulate_over_passes_witness:
  "\<exists>d w1. doShade_setup example_host example_canvas example_sources example_shaders example_world = (Inr d, w1)
     \<and> (1::nat) < length example_sources
     \<and> example_shaders ''b'' = None
     \<and> user_table example_shaders ''a'' = [(''X'', UserSetter 7)]
     \<and> (''X'', Loc (program (programs d ! 1)) ''X'', UserSetter 7) \<in> set (uniforms (programs d ! 1))"
proof -
  from example_setup_passes obtain d w1 where
    s: "doShade_setup example_host example_canvas example_sources example_shaders example_world = (Inr d, w1)"
    and p: "program (programs d ! 1) = 7"
    by (elim exE conjE)
  have l: "(1::nat) < length example_sources" by (simp add: example_sources_def)
  have a: "uniform_active example_host 7 ''X''" by (simp add: example_host_def)
  have t: "map_of (merged_uniforms example_shaders (take (Suc 1) (Object_keys example_sources)) defaultUniforms) ''X''
             = Some (UserSetter 7)"
    by (simp add: merged_uniforms_def example_sources_def example_shaders_def Object_assign_def
          shader_uniforms_def defaultUniforms_def key_defs)
  have q: "((''X'', Loc (program (programs d ! 1)) ''X'', UserSetter 7) \<in> set (uniforms (programs d ! 1)))
      = (map_of (merged_uniforms example_shaders (take (Suc 1) (Object_keys example_sources)) defaultUniforms) ''X''
           = Some (UserSetter 7)
         \<and> uniform_active example_host (program (programs d ! 1)) ''X'')"
    using uniforms_accumulate_over_passes [OF s l] by blast
  have "(''X'', Loc (program (programs d ! 1)) ''X'', UserSetter 7) \<in> set (uniforms (programs d ! 1))"
    unfolding q using t a p by simp
  with s l show ?thesis
    by (simp add: example_shaders_def user_table_def shader_uniforms_def)
qed

end
